theory Spec2Isabelle
  imports Main "HOL-Library.Code_Target_Numeral"
begin

section \<open>Carrier scheduler of the eNodeB MAC (scheduler\_carrier.cc)\<close>

text \<open>
  A shallow embedding of \<^verbatim>\<open>srsenb/src/stack/mac/scheduler_carrier.cc\<close>: the broadcast
  scheduler \<^verbatim>\<open>bc_sched\<close>, the random-access scheduler \<^verbatim>\<open>ra_sched\<close> and the carrier
  scheduler \<^verbatim>\<open>sched::carrier_sched\<close>.

  Conventions.
  \<^item> \<^verbatim>\<open>uint32_t\<close> and \<^verbatim>\<open>uint16_t\<close> values are \<open>nat\<close>; where the source adds or subtracts,
    the wrap-around modulo \<open>2^32\<close> is written out (\<open>u32_add\<close>, \<open>u32_sub\<close>).
  \<^item> Undefined behaviour of the C++ (an array index past the capacity, a division by
    zero, a null \<^verbatim>\<open>unique_ptr\<close>, an inverted \<^verbatim>\<open>std::copy\<close> range) is a value of type
    \<open>fault\<close>; a function that can hit one returns \<open>fault + 'a\<close>.
  \<^item> The \<^verbatim>\<open>while\<close> loop of \<^verbatim>\<open>ra_sched::dl_sched\<close> has no syntactic bound; it is a
    \<^theory_text>\<open>partial_function (option)\<close> and \<open>None\<close> means that the call does not return.
  \<^item> Everything declared in headers outside this file (the subframe slot \<^verbatim>\<open>sf_sched\<close>,
    the UE class, the metrics, library helpers, compile-time constants) is a field of
    the record \<open>env\<close> and so a parameter of every definition, or a definition marked
    \<^emph>\<open>Modelled from the spec\<close>.
  \<^item> The calls made on a subframe slot and the messages given to the logger are
    recorded in the lists \<open>calls\<close> and \<open>ra_log\<close>/\<open>log_h\<close>, so that statements about which
    call happens, and in which order, can be written down.
\<close>

subsection \<open>Data model\<close>

datatype fault = Array_out_of_bounds | Division_by_zero | Null_dereference | Invalid_range

type_synonym prbmask = "nat set"
type_synonym rbgmask = "nat set"

definition SRSLTE_SUCCESS :: int where "SRSLTE_SUCCESS = 0"
definition SRSLTE_ERROR :: int where "SRSLTE_ERROR = - 1"

definition u32_add :: "nat \<Rightarrow> nat \<Rightarrow> nat" where
  "u32_add a b = (a + b) mod 4294967296"

definition u32_sub :: "nat \<Rightarrow> nat \<Rightarrow> nat" where
  "u32_sub a b = (a mod 4294967296 + 4294967296 - b mod 4294967296) mod 4294967296"

definition u32_mul :: "nat \<Rightarrow> nat \<Rightarrow> nat" where
  "u32_mul a b = (a * b) mod 4294967296"

text \<open>\<^verbatim>\<open>dl_sched_rar_info_t\<close>; its field \<^verbatim>\<open>prach_tti\<close> is \<open>info_prach_tti\<close> here, since
  \<^verbatim>\<open>pending_rar_t\<close> has a field of the same name.\<close>

record dl_sched_rar_info_t =
  preamble_idx :: nat
  ta_cmd :: nat
  temp_crnti :: nat
  msg3_size :: nat
  info_prach_tti :: nat

text \<open>\<^verbatim>\<open>sf_sched::pending_rar_t\<close>: \<open>msg3_grant\<close> is an array of \<open>MAX_RAR_LIST\<close> entries, of which
  the first \<open>nof_grants\<close> are in use.\<close>

record pending_rar_t =
  ra_rnti :: nat
  prach_tti :: nat
  nof_grants :: nat
  msg3_grant :: "dl_sched_rar_info_t list"

record pending_msg3_t =
  msg3_rnti :: nat
  msg3_L :: nat
  msg3_n_prb :: nat
  msg3_mcs :: nat

datatype alloc_outcome_t = SUCCESS | DCI_COLLISION | RB_COLLISION | INVALID_CODERATE | ERROR

datatype ul_alloc_type = MSG3 | NEW_TX | RETX

datatype phich_value = ACK | NACK

record ul_sched_phich_t =
  phich_rnti :: nat
  phich :: phich_value

text \<open>One Msg3 grant of a scheduled RAR in \<^verbatim>\<open>dl_sched_result\<close>: \<^verbatim>\<open>grant.rba\<close>,
  \<^verbatim>\<open>grant.trunc_mcs\<close> and \<^verbatim>\<open>data.temp_crnti\<close>.\<close>

record rar_grant_t =
  rba :: nat
  trunc_mcs :: nat
  data_temp_crnti :: nat

datatype sf_call =
    Alloc_bc nat nat nat
  | Alloc_paging nat nat
  | Alloc_rar nat pending_rar_t
  | Alloc_ul nat "nat \<times> nat" ul_alloc_type nat
  | Alloc_msg3 pending_msg3_t
  | Alloc_ul_users
  | Alloc_dl_users
  | Dl_metric_sched_users
  | Ul_metric_sched_users
  | Generate_dcis

datatype log_msg =
    New_prach nat nat nat nat nat
  | Rar_window_passed nat nat nat
  | Msg3_user_not_found nat
  | Msg3_alloc_failed nat nat
  | Msg3_queue_failed nat nat
  | Msg3_queued nat nat
  | Prach_rbs_allocated
  | Pucch_collision
  | Phich_allocated nat phich_value

text \<open>The subframe slot \<^verbatim>\<open>sf_sched\<close>, as far as this file reads and writes it: the TTI it is
  bound to, the two masks, the queue of pending Msg3, the PHICH part of
  \<^verbatim>\<open>ul_sched_result\<close> (the first \<^verbatim>\<open>nof_phich_elems\<close> entries of the array), and the rest
  of the slot (PDCCH candidates, allocations, results) as the abstract \<open>grid\<close>.\<close>

record 'g sf_sched =
  tti_rx :: nat
  dl_mask :: rbgmask
  ul_mask :: prbmask
  pending_msg3 :: "pending_msg3_t list"
  ul_phich :: "ul_sched_phich_t list"
  calls :: "sf_call list"
  grid :: 'g

record sib_cfg_t =
  len :: nat
  period_rf :: nat

text \<open>\<^verbatim>\<open>sched::cell_cfg_t\<close>, the fields this file reads.\<close>

record cell_cfg_t =
  nof_prb :: nat
  sibs :: "sib_cfg_t list"
  si_window_ms :: nat
  prach_rar_window :: nat
  prach_config :: nat
  prach_freq_offset :: nat
  nrb_pucch :: int

text \<open>What the headers outside this file declare. An allocation primitive of the slot
  gets the mask it may write and the \<open>grid\<close>, never the TTI, the PHICH list or the
  recorded calls. \<open>is_paging_opportunity\<close> is \<open>None\<close> when the \<^verbatim>\<open>rrc\<close> pointer is null; it
  returns the flag and the payload that the C++ writes through its second argument.\<close>

record ('g, 'u) env =
  MAX_RAR_LIST :: nat
  MAX_PHICH_LIST :: nat
  MAX_SIBS :: nat
  MSG3_DELAY_MS :: nat
  TX_DELAY :: nat
  UL_DELAY :: nat
  TTI_RX_ACK :: "nat \<Rightarrow> nat"
  new_tti_grid :: "nat \<Rightarrow> nat \<Rightarrow> 'g \<Rightarrow> 'g"
  dl_mask_size :: "'g \<Rightarrow> nat"
  alloc_bc :: "nat \<Rightarrow> nat \<Rightarrow> nat \<Rightarrow> rbgmask \<times> 'g \<Rightarrow> alloc_outcome_t \<times> rbgmask \<times> 'g"
  alloc_paging :: "nat \<Rightarrow> nat \<Rightarrow> rbgmask \<times> 'g \<Rightarrow> alloc_outcome_t \<times> rbgmask \<times> 'g"
  alloc_rar :: "nat \<Rightarrow> pending_rar_t \<Rightarrow> rbgmask \<times> 'g \<Rightarrow> (alloc_outcome_t \<times> nat) \<times> rbgmask \<times> 'g"
  alloc_ul :: "nat \<Rightarrow> 'u \<Rightarrow> nat \<times> nat \<Rightarrow> ul_alloc_type \<Rightarrow> nat \<Rightarrow> prbmask \<times> 'g \<Rightarrow> bool \<times> prbmask \<times> 'g"
  dl_metric_sched_users :: "(nat \<times> 'u) list \<Rightarrow> rbgmask \<times> 'g \<Rightarrow> (nat \<times> 'u) list \<times> rbgmask \<times> 'g"
  ul_metric_sched_users :: "(nat \<times> 'u) list \<Rightarrow> prbmask \<times> 'g \<Rightarrow> (nat \<times> 'u) list \<times> prbmask \<times> 'g"
  generate_dcis_grid :: "(nat \<times> 'u) list \<times> 'g \<Rightarrow> (nat \<times> 'u) list \<times> 'g"
  dl_sched_result_rar :: "'g \<Rightarrow> rar_grant_t list list"
  is_paging_opportunity :: "(nat \<Rightarrow> bool \<times> nat) option"
  srslte_prach_tti_opportunity_config_fdd :: "nat \<Rightarrow> nat \<Rightarrow> int \<Rightarrow> bool"
  srslte_ra_type2_from_riv :: "nat \<Rightarrow> nat \<Rightarrow> nat \<Rightarrow> nat \<times> nat"
  get_cell_index :: "'u \<Rightarrow> nat \<Rightarrow> bool \<times> nat"
  has_pending_ack :: "'u \<Rightarrow> nat \<Rightarrow> nat \<Rightarrow> bool"
  get_pending_ack :: "'u \<Rightarrow> nat \<Rightarrow> nat \<Rightarrow> bool"
  finish_tti :: "nat \<Rightarrow> nat \<Rightarrow> 'u \<Rightarrow> 'u"

subsection \<open>The subframe slot's interface\<close>

text \<open>Modelled from the spec: the getters of \<^verbatim>\<open>sf_sched\<close> are declared outside this file.
  TTIs wrap at 10240, \<open>tti_tx_dl = tti_rx + FDD_TX_DELAY\<close>, \<open>tti_tx_ul = tti_rx + FDD_UL_DELAY\<close>,
  \<open>SFN = tti / 10\<close> and \<open>sf_idx = tti mod 10\<close>, both of the downlink TTI.\<close>

definition get_tti_rx :: "'g sf_sched \<Rightarrow> nat" where
  "get_tti_rx s = tti_rx s"

definition get_tti_tx_dl :: "('g, 'u) env \<Rightarrow> 'g sf_sched \<Rightarrow> nat" where
  "get_tti_tx_dl E s = (tti_rx s + TX_DELAY E) mod 10240"

definition get_tti_tx_ul :: "('g, 'u) env \<Rightarrow> 'g sf_sched \<Rightarrow> nat" where
  "get_tti_tx_ul E s = (tti_rx s + UL_DELAY E) mod 10240"

definition get_sfn :: "('g, 'u) env \<Rightarrow> 'g sf_sched \<Rightarrow> nat" where
  "get_sfn E s = get_tti_tx_dl E s div 10"

definition get_sf_idx :: "('g, 'u) env \<Rightarrow> 'g sf_sched \<Rightarrow> nat" where
  "get_sf_idx E s = get_tti_tx_dl E s mod 10"

text \<open>Modelled from the spec: \<^verbatim>\<open>new_tti\<close> is declared outside this file. It rebinds the slot
  to the TTI and zeroes its state; the Msg3 queued for this TTI by an earlier
  \<^verbatim>\<open>sched_msg3\<close> stay, since \<^verbatim>\<open>ul_sched\<close> reads them afterwards.\<close>

definition new_tti :: "('g, 'u) env \<Rightarrow> nat \<Rightarrow> nat \<Rightarrow> 'g sf_sched \<Rightarrow> 'g sf_sched" where
  "new_tti E t start_cfi s =
     s\<lparr>tti_rx := t, dl_mask := {}, ul_mask := {}, ul_phich := [], calls := [],
       grid := new_tti_grid E t start_cfi (grid s)\<rparr>"

text \<open>The allocation primitives: the call is recorded, the primitive of \<open>env\<close> decides.\<close>

definition sf_alloc_bc :: "('g, 'u) env \<Rightarrow> nat \<Rightarrow> nat \<Rightarrow> nat \<Rightarrow> 'g sf_sched \<Rightarrow> alloc_outcome_t \<times> 'g sf_sched" where
  "sf_alloc_bc E aggr_lvl sib_idx sib_ntx s =
     (case alloc_bc E aggr_lvl sib_idx sib_ntx (dl_mask s, grid s) of
        (ret, m, g) \<Rightarrow>
          (ret, s\<lparr>dl_mask := m, grid := g, calls := calls s @ [Alloc_bc aggr_lvl sib_idx sib_ntx]\<rparr>))"

definition sf_alloc_paging :: "('g, 'u) env \<Rightarrow> nat \<Rightarrow> nat \<Rightarrow> 'g sf_sched \<Rightarrow> alloc_outcome_t \<times> 'g sf_sched" where
  "sf_alloc_paging E aggr_lvl payload s =
     (case alloc_paging E aggr_lvl payload (dl_mask s, grid s) of
        (ret, m, g) \<Rightarrow>
          (ret, s\<lparr>dl_mask := m, grid := g, calls := calls s @ [Alloc_paging aggr_lvl payload]\<rparr>))"

definition sf_alloc_rar :: "('g, 'u) env \<Rightarrow> nat \<Rightarrow> pending_rar_t \<Rightarrow> 'g sf_sched \<Rightarrow> (alloc_outcome_t \<times> nat) \<times> 'g sf_sched" where
  "sf_alloc_rar E aggr_lvl rar s =
     (case alloc_rar E aggr_lvl rar (dl_mask s, grid s) of
        (ret, m, g) \<Rightarrow>
          (ret, s\<lparr>dl_mask := m, grid := g, calls := calls s @ [Alloc_rar aggr_lvl rar]\<rparr>))"

definition sf_alloc_ul :: "('g, 'u) env \<Rightarrow> nat \<Rightarrow> 'u \<Rightarrow> nat \<times> nat \<Rightarrow> ul_alloc_type \<Rightarrow> nat \<Rightarrow> 'g sf_sched \<Rightarrow> bool \<times> 'g sf_sched" where
  "sf_alloc_ul E rnti user alloc ty mcs s =
     (case alloc_ul E rnti user alloc ty mcs (ul_mask s, grid s) of
        (ok, m, g) \<Rightarrow>
          (ok, s\<lparr>ul_mask := m, grid := g, calls := calls s @ [Alloc_ul rnti alloc ty mcs]\<rparr>))"

text \<open>Modelled from the spec: \<^verbatim>\<open>alloc_msg3\<close> is declared outside this file; it appends a
  pending-Msg3 descriptor to the slot.\<close>

definition sf_alloc_msg3 :: "pending_msg3_t \<Rightarrow> 'g sf_sched \<Rightarrow> bool \<times> 'g sf_sched" where
  "sf_alloc_msg3 m s = (True, s\<lparr>pending_msg3 := pending_msg3 s @ [m]\<rparr>)"

subsection \<open>RAR scheduling: \<^verbatim>\<open>ra_sched\<close>\<close>

record ra_sched =
  pending_rars :: "pending_rar_t list"
  ra_log :: "log_msg list"

text \<open>Modelled from the spec: \<^verbatim>\<open>sched_utils::is_in_tti_interval\<close> is declared outside this
  file. The spec gives the RAR window as \<open>w_lo = prach_tti + 3\<close> (inclusive) to
  \<open>w_hi = w_lo + prach_rar_window\<close> (exclusive).\<close>

definition is_in_tti_interval :: "nat \<Rightarrow> nat \<Rightarrow> nat \<Rightarrow> bool" where
  "is_in_tti_interval tti tti1 tti2 = (tti1 \<le> tti \<and> tti < tti2)"

datatype 'a loop_step = Continue 'a | Return 'a | Fault fault

text \<open>\<^verbatim>\<open>std::copy(&g[n], &g[nof], &g[0])\<close> on the array \<open>g\<close>: the entries \<open>n..nof-1\<close> move to the
  front, the rest of the array stays.\<close>

definition copy_to_front :: "nat \<Rightarrow> nat \<Rightarrow> 'a list \<Rightarrow> 'a list" where
  "copy_to_front n nof g = take (nof - n) (drop n g) @ drop (nof - n) g"

text \<open>One pass through the body of the \<^verbatim>\<open>while\<close> loop of \<^verbatim>\<open>ra_sched::dl_sched\<close>, entered
  with a non-empty queue: \<open>Continue\<close> is the end of the body or \<^verbatim>\<open>continue\<close>, \<open>Return\<close> is
  \<^verbatim>\<open>return\<close>.\<close>

definition ra_dl_sched_body ::
  "('g, 'u) env \<Rightarrow> cell_cfg_t \<Rightarrow> nat \<Rightarrow> ra_sched \<times> 'g sf_sched \<Rightarrow> (ra_sched \<times> 'g sf_sched) loop_step" where
  "ra_dl_sched_body E cfg tti_tx_dl st =
     (let ra = fst st; s = snd st;
          rar = hd (pending_rars ra);
          w_lo = u32_add (prach_tti rar) 3;
          w_hi = u32_add (u32_add (prach_tti rar) 3) (prach_rar_window cfg)
      in if \<not> is_in_tti_interval tti_tx_dl w_lo w_hi then
           if tti_tx_dl \<ge> w_hi then
             Continue (ra\<lparr>pending_rars := tl (pending_rars ra),
                          ra_log := ra_log ra @ [Rar_window_passed (prach_tti rar) (prach_rar_window cfg) tti_tx_dl]\<rparr>, s)
           else Return (ra, s)
         else
           (case sf_alloc_rar E 2 rar s of
              (ret, s') \<Rightarrow>
                if fst ret = SUCCESS then
                  if snd ret = nof_grants rar then
                    Continue (ra\<lparr>pending_rars := tl (pending_rars ra)\<rparr>, s')
                  else if snd ret > 0 then
                    if snd ret > nof_grants rar then Fault Invalid_range
                    else Continue
                      (ra\<lparr>pending_rars :=
                            rar\<lparr>msg3_grant := copy_to_front (snd ret) (nof_grants rar) (msg3_grant rar),
                                nof_grants := nof_grants rar - snd ret\<rparr> # tl (pending_rars ra)\<rparr>, s')
                  else Continue (ra, s')
                else if fst ret = RB_COLLISION then Return (ra, s')
                else Continue (ra, s')))"

partial_function (option) ra_dl_sched_loop ::
  "('g, 'u) env \<Rightarrow> cell_cfg_t \<Rightarrow> nat \<Rightarrow> ra_sched \<times> 'g sf_sched \<Rightarrow> (fault + ra_sched \<times> 'g sf_sched) option" where
  "ra_dl_sched_loop E cfg tti_tx_dl st =
     (if pending_rars (fst st) = [] then Some (Inr st)
      else (case ra_dl_sched_body E cfg tti_tx_dl st of
              Fault f \<Rightarrow> Some (Inl f)
            | Return st' \<Rightarrow> Some (Inr st')
            | Continue st' \<Rightarrow> ra_dl_sched_loop E cfg tti_tx_dl st'))"

declare ra_dl_sched_loop.simps [code]

definition ra_dl_sched ::
  "('g, 'u) env \<Rightarrow> cell_cfg_t \<Rightarrow> ra_sched \<Rightarrow> 'g sf_sched \<Rightarrow> (fault + ra_sched \<times> 'g sf_sched) option" where
  "ra_dl_sched E cfg ra s = ra_dl_sched_loop E cfg (get_tti_tx_dl E s) (ra, s)"

text \<open>\<^verbatim>\<open>ra_sched::ul_sched\<close>: the loop takes the pending Msg3 of the slot from the front
  until the queue is empty.\<close>

fun ra_ul_sched_loop ::
  "('g, 'u) env \<Rightarrow> (nat \<times> 'u) list \<Rightarrow> pending_msg3_t list \<Rightarrow> ra_sched \<times> 'g sf_sched \<Rightarrow> ra_sched \<times> 'g sf_sched" where
  "ra_ul_sched_loop E ue_db [] (ra, s) = (ra, s\<lparr>pending_msg3 := []\<rparr>)"
| "ra_ul_sched_loop E ue_db (msg3 # rest) (ra, s) =
     (case map_of ue_db (msg3_rnti msg3) of
        None \<Rightarrow>
          ra_ul_sched_loop E ue_db rest
            (ra\<lparr>ra_log := ra_log ra @ [Msg3_user_not_found (msg3_rnti msg3)]\<rparr>, s\<lparr>pending_msg3 := rest\<rparr>)
      | Some user \<Rightarrow>
          (case sf_alloc_ul E (msg3_rnti msg3) user (msg3_n_prb msg3, msg3_L msg3) MSG3 (msg3_mcs msg3) s of
             (ok, s') \<Rightarrow>
               ra_ul_sched_loop E ue_db rest
                 (if ok then ra
                  else ra\<lparr>ra_log := ra_log ra @ [Msg3_alloc_failed (msg3_n_prb msg3) (msg3_n_prb msg3 + msg3_L msg3)]\<rparr>,
                  s'\<lparr>pending_msg3 := rest\<rparr>)))"

definition ra_ul_sched ::
  "('g, 'u) env \<Rightarrow> (nat \<times> 'u) list \<Rightarrow> ra_sched \<Rightarrow> 'g sf_sched \<Rightarrow> ra_sched \<times> 'g sf_sched" where
  "ra_ul_sched E ue_db ra s = ra_ul_sched_loop E ue_db (pending_msg3 s) (ra, s)"

text \<open>\<^verbatim>\<open>ra_sched::dl_rach_info\<close>. The loop looks for the first pending RAR of the same
  PRACH TTI and RA-RNTI: \<open>None\<close> when there is none, otherwise the queue after
  \<^verbatim>\<open>r.msg3_grant[r.nof_grants] = rar_info; r.nof_grants++\<close>. The source does not compare
  \<^verbatim>\<open>nof_grants\<close> with the capacity of the array before it writes.\<close>

fun dl_rach_info_find ::
  "nat \<Rightarrow> nat \<Rightarrow> dl_sched_rar_info_t \<Rightarrow> pending_rar_t list \<Rightarrow> (fault + pending_rar_t list) option" where
  "dl_rach_info_find cap rnti rar_info [] = None"
| "dl_rach_info_find cap rnti rar_info (r # rs) =
     (if prach_tti r = info_prach_tti rar_info \<and> rnti = ra_rnti r then
        Some (if nof_grants r < cap \<and> nof_grants r < length (msg3_grant r) then
                Inr (r\<lparr>msg3_grant := (msg3_grant r)[nof_grants r := rar_info],
                       nof_grants := nof_grants r + 1\<rparr> # rs)
              else Inl Array_out_of_bounds)
      else map_option (map_sum id ((#) r)) (dl_rach_info_find cap rnti rar_info rs))"

definition zero_rar_info :: dl_sched_rar_info_t where
  "zero_rar_info = \<lparr>preamble_idx = 0, ta_cmd = 0, temp_crnti = 0, msg3_size = 0, info_prach_tti = 0\<rparr>"

definition dl_rach_info ::
  "('g, 'u) env \<Rightarrow> ra_sched \<Rightarrow> dl_sched_rar_info_t \<Rightarrow> fault + int \<times> ra_sched" where
  "dl_rach_info E ra rar_info =
     (let ra1 = ra\<lparr>ra_log := ra_log ra @
                    [New_prach (info_prach_tti rar_info) (preamble_idx rar_info) (temp_crnti rar_info)
                       (ta_cmd rar_info) (msg3_size rar_info)]\<rparr>;
          rnti = 1 + info_prach_tti rar_info mod 10
      in case dl_rach_info_find (MAX_RAR_LIST E) rnti rar_info (pending_rars ra1) of
           Some (Inl f) \<Rightarrow> Inl f
         | Some (Inr q) \<Rightarrow> Inr (SRSLTE_SUCCESS, ra1\<lparr>pending_rars := q\<rparr>)
         | None \<Rightarrow>
             if MAX_RAR_LIST E = 0 then Inl Array_out_of_bounds
             else Inr (SRSLTE_SUCCESS,
                    ra1\<lparr>pending_rars := pending_rars ra1 @
                          [\<lparr>ra_rnti = rnti, prach_tti = info_prach_tti rar_info, nof_grants = 1,
                            msg3_grant = (replicate (MAX_RAR_LIST E) zero_rar_info)[0 := rar_info]\<rparr>]\<rparr>))"

definition ra_reset :: "ra_sched \<Rightarrow> ra_sched" where
  "ra_reset ra = ra\<lparr>pending_rars := []\<rparr>"

text \<open>\<^verbatim>\<open>ra_sched::sched_msg3\<close>: the two nested loops visit every Msg3 grant of every RAR in
  \<^verbatim>\<open>dl_sched_result\<close>, in order.\<close>

fun sched_msg3_grants ::
  "('g, 'u) env \<Rightarrow> cell_cfg_t \<Rightarrow> rar_grant_t list \<Rightarrow> ra_sched \<times> 'g sf_sched \<Rightarrow> ra_sched \<times> 'g sf_sched" where
  "sched_msg3_grants E cfg [] st = st"
| "sched_msg3_grants E cfg (g # gs) st =
     (case srslte_ra_type2_from_riv E (rba g) (nof_prb cfg) (nof_prb cfg) of
        (l, n) \<Rightarrow>
          (case sf_alloc_msg3 \<lparr>msg3_rnti = data_temp_crnti g, msg3_L = l, msg3_n_prb = n,
                               msg3_mcs = trunc_mcs g\<rparr> (snd st) of
             (ok, s') \<Rightarrow>
               sched_msg3_grants E cfg gs
                 ((fst st)\<lparr>ra_log := ra_log (fst st) @
                     [if ok then Msg3_queued (data_temp_crnti g) (get_tti_tx_ul E s')
                      else Msg3_queue_failed (data_temp_crnti g) (get_tti_tx_ul E s')]\<rparr>, s')))"

definition sched_msg3 ::
  "('g, 'u) env \<Rightarrow> cell_cfg_t \<Rightarrow> ra_sched \<Rightarrow> 'g sf_sched \<Rightarrow> rar_grant_t list list \<Rightarrow> ra_sched \<times> 'g sf_sched" where
  "sched_msg3 E cfg ra sf_msg3_sched dl_sched_result = sched_msg3_grants E cfg (concat dl_sched_result) (ra, sf_msg3_sched)"

subsection \<open>Broadcast scheduling: \<^verbatim>\<open>bc_sched\<close>\<close>

record sched_sib_t =
  is_in_window :: bool
  window_start :: nat
  n_tx :: nat

record bc_sched =
  pending_sibs :: "sched_sib_t list"
  current_sf_idx :: nat
  current_sfn :: nat
  current_tti :: nat
  bc_aggr_level :: nat

definition zero_sib :: sched_sib_t where
  "zero_sib = \<lparr>is_in_window = False, window_start = 0, n_tx = 0\<rparr>"

definition bc_sched_new :: "('g, 'u) env \<Rightarrow> bc_sched" where
  "bc_sched_new E = \<lparr>pending_sibs = replicate (MAX_SIBS E) zero_sib, current_sf_idx = 0, current_sfn = 0,
                     current_tti = 0, bc_aggr_level = 0\<rparr>"

text \<open>Modelled from the spec: \<^verbatim>\<open>srslte_tti_interval\<close> and \<^verbatim>\<open>srslte::ceil_div\<close> are declared outside
  this file. The spec writes the first as the difference \<open>tti_tx_dl - window_start\<close> of two
  TTIs, which wrap at 10240, and the second as \<open>\<lceil>si_window_ms/10\<rceil>\<close>.\<close>

definition srslte_tti_interval :: "nat \<Rightarrow> nat \<Rightarrow> nat" where
  "srslte_tti_interval tti2 tti1 = (if tti1 \<le> tti2 then tti2 - tti1 else 10240 - tti1 + tti2)"

definition ceil_div :: "nat \<Rightarrow> nat \<Rightarrow> nat" where
  "ceil_div a b = (a + b - 1) div b"

text \<open>A \<^verbatim>\<open>for\<close> loop over indices whose body can hit a fault.\<close>

fun for_each :: "('i \<Rightarrow> 's \<Rightarrow> fault + 's) \<Rightarrow> 'i list \<Rightarrow> 's \<Rightarrow> fault + 's" where
  "for_each f [] s = Inr s"
| "for_each f (i # is) s = (case f i s of Inl e \<Rightarrow> Inl e | Inr s' \<Rightarrow> for_each f is s')"

text \<open>The body of the loop of \<^verbatim>\<open>bc_sched::update_si_windows\<close> for the SIB index \<open>i\<close>.\<close>

definition update_si_window :: "cell_cfg_t \<Rightarrow> nat \<Rightarrow> nat \<Rightarrow> bc_sched \<Rightarrow> fault + bc_sched" where
  "update_si_window cfg tti_tx_dl i bc =
     (if length (sibs cfg) \<le> i \<or> length (pending_sibs bc) \<le> i then Inl Array_out_of_bounds
      else if len (sibs cfg ! i) = 0 then Inr bc
      else if \<not> is_in_window (pending_sibs bc ! i) then
        (let x = (if i > 0 then u32_mul (i - 1) (si_window_ms cfg) else 0);
             sf = (if i > 0 then x mod 10 else 5)
         in if period_rf (sibs cfg ! i) = 0 then Inl Division_by_zero
            else if current_sfn bc mod period_rf (sibs cfg ! i) = x div 10 \<and> current_sf_idx bc = sf then
              Inr (bc\<lparr>pending_sibs := (pending_sibs bc)
                     [i := \<lparr>is_in_window = True, window_start = tti_tx_dl, n_tx = 0\<rparr>]\<rparr>)
            else Inr bc)
      else if i > 0 then
        (if srslte_tti_interval tti_tx_dl (window_start (pending_sibs bc ! i)) > si_window_ms cfg then
           Inr (bc\<lparr>pending_sibs := (pending_sibs bc)[i := zero_sib]\<rparr>)
         else Inr bc)
      else
        (if n_tx (pending_sibs bc ! 0) = 4 then
           Inr (bc\<lparr>pending_sibs := (pending_sibs bc)[0 := (pending_sibs bc ! 0)\<lparr>n_tx := 0\<rparr>]\<rparr>)
         else Inr bc))"

definition update_si_windows :: "('g, 'u) env \<Rightarrow> cell_cfg_t \<Rightarrow> 'g sf_sched \<Rightarrow> bc_sched \<Rightarrow> fault + bc_sched" where
  "update_si_windows E cfg tti_sched bc =
     for_each (update_si_window cfg (get_tti_tx_dl E tti_sched)) [0..<length (pending_sibs bc)] bc"

text \<open>The body of the loop of \<^verbatim>\<open>bc_sched::alloc_sibs\<close> for the SIB index \<open>i\<close>. The division
  \<^verbatim>\<open>si_window_ms / nof_tx\<close> is only evaluated for \<open>i > 0\<close>, where \<^verbatim>\<open>nof_tx\<close> is 0 when
  \<^verbatim>\<open>si_window_ms\<close> is.\<close>

definition alloc_sib ::
  "('g, 'u) env \<Rightarrow> cell_cfg_t \<Rightarrow> nat \<Rightarrow> bc_sched \<times> 'g sf_sched \<Rightarrow> fault + bc_sched \<times> 'g sf_sched" where
  "alloc_sib E cfg i st =
     (let bc = fst st; tti_sched = snd st in
      if length (sibs cfg) \<le> i \<or> length (pending_sibs bc) \<le> i then Inl Array_out_of_bounds
      else if len (sibs cfg ! i) > 0 \<and> is_in_window (pending_sibs bc ! i) \<and> n_tx (pending_sibs bc ! i) < 4 then
        (let nof_tx = (if i > 0 then min (ceil_div (si_window_ms cfg) 10) 4 else 4);
             n_sf = u32_sub (get_tti_tx_dl E tti_sched) (window_start (pending_sibs bc ! i));
             sib1_flag = (i = 0 \<and> current_sfn bc mod 2 = 0 \<and> current_sf_idx bc = 5)
         in if i > 0 \<and> nof_tx = 0 then Inl Division_by_zero
            else
              (let other_sibs_flag =
                     (i > 0 \<and> n_sf \<ge> u32_mul (si_window_ms cfg div nof_tx) (n_tx (pending_sibs bc ! i)) \<and>
                      current_sf_idx bc = 9)
               in if \<not> sib1_flag \<and> \<not> other_sibs_flag then Inr (bc, tti_sched)
                  else
                    (case sf_alloc_bc E (bc_aggr_level bc) i (n_tx (pending_sibs bc ! i)) tti_sched of
                       (ret, s') \<Rightarrow>
                         Inr (bc\<lparr>pending_sibs := (pending_sibs bc)
                                  [i := (pending_sibs bc ! i)\<lparr>n_tx := n_tx (pending_sibs bc ! i) + 1\<rparr>]\<rparr>, s'))))
      else Inr (bc, tti_sched))"

definition alloc_sibs ::
  "('g, 'u) env \<Rightarrow> cell_cfg_t \<Rightarrow> bc_sched \<times> 'g sf_sched \<Rightarrow> fault + bc_sched \<times> 'g sf_sched" where
  "alloc_sibs E cfg st = for_each (alloc_sib E cfg) [0..<length (pending_sibs (fst st))] st"

definition bc_alloc_paging :: "('g, 'u) env \<Rightarrow> bc_sched \<Rightarrow> 'g sf_sched \<Rightarrow> 'g sf_sched" where
  "bc_alloc_paging E bc tti_sched =
     (case is_paging_opportunity E of
        None \<Rightarrow> tti_sched
      | Some rrc \<Rightarrow>
          (case rrc (current_tti bc) of
             (opportunity, paging_payload) \<Rightarrow>
               if opportunity \<and> paging_payload > 0 then
                 snd (sf_alloc_paging E (bc_aggr_level bc) paging_payload tti_sched)
               else tti_sched))"

text \<open>\<^verbatim>\<open>bc_sched::dl_sched\<close>.\<close>

definition bc_dl_sched ::
  "('g, 'u) env \<Rightarrow> cell_cfg_t \<Rightarrow> bc_sched \<Rightarrow> 'g sf_sched \<Rightarrow> fault + bc_sched \<times> 'g sf_sched" where
  "bc_dl_sched E cfg bc tti_sched =
     (let bc1 = bc\<lparr>current_sf_idx := get_sf_idx E tti_sched, current_sfn := get_sfn E tti_sched,
                   current_tti := get_tti_tx_dl E tti_sched, bc_aggr_level := 2\<rparr>
      in case update_si_windows E cfg tti_sched bc1 of
           Inl f \<Rightarrow> Inl f
         | Inr bc2 \<Rightarrow>
             (case alloc_sibs E cfg (bc2, tti_sched) of
                Inl f \<Rightarrow> Inl f
              | Inr st \<Rightarrow> Inr (fst st, bc_alloc_paging E (fst st) (snd st))))"

definition bc_reset :: "bc_sched \<Rightarrow> bc_sched" where
  "bc_reset bc = bc\<lparr>pending_sibs := map (\<lambda>sib. zero_sib) (pending_sibs bc)\<rparr>"

text \<open>Driving \<^verbatim>\<open>bc_sched::dl_sched\<close> over a sequence of slots, one per TTI; the result keeps
  the slot of every TTI.\<close>

fun bc_dl_sched_run ::
  "('g, 'u) env \<Rightarrow> cell_cfg_t \<Rightarrow> bc_sched \<Rightarrow> 'g sf_sched list \<Rightarrow> fault + bc_sched \<times> 'g sf_sched list" where
  "bc_dl_sched_run E cfg bc [] = Inr (bc, [])"
| "bc_dl_sched_run E cfg bc (s # ss) =
     (case bc_dl_sched E cfg bc s of
        Inl f \<Rightarrow> Inl f
      | Inr st \<Rightarrow>
          (case bc_dl_sched_run E cfg (fst st) ss of
             Inl f \<Rightarrow> Inl f
           | Inr r \<Rightarrow> Inr (fst r, snd st # snd r)))"

fun is_sib1_alloc :: "sf_call \<Rightarrow> bool" where
  "is_sib1_alloc (Alloc_bc aggr_lvl sib_idx sib_ntx) = (sib_idx = 0)"
| "is_sib1_alloc c = False"

subsection \<open>Carrier scheduling: \<^verbatim>\<open>sched::carrier_sched\<close>\<close>

text \<open>The two \<^verbatim>\<open>unique_ptr\<close> are \<open>None\<close> when null. \<open>cc_cfg\<close> and \<open>nof_ctrl_symbols\<close> are what
  \<^verbatim>\<open>carrier_cfg\<close> stores of \<^verbatim>\<open>sched_params\<close>; \<open>ue_db\<close> is the UE map behind the pointer, in
  the order of its keys; \<open>sf_scheds\<close> is the ring of subframe slots.\<close>

record ('g, 'u) carrier_sched =
  cc_cfg :: cell_cfg_t
  nof_ctrl_symbols :: nat
  enb_cc_idx :: nat
  ue_db :: "(nat \<times> 'u) list"
  sf_dl_mask :: "nat list"
  pucch_mask :: prbmask
  prach_mask :: prbmask
  bc_sched_ptr :: "bc_sched option"
  ra_sched_ptr :: "ra_sched option"
  sf_scheds :: "'g sf_sched list"
  log_h :: "log_msg list"

text \<open>Modelled from the spec: the bitset class of the masks is declared outside this file.
  A mask is the set of its set bits, and \<^verbatim>\<open>fill(a, b)\<close> sets the bits \<open>a..b-1\<close>.\<close>

definition mask_fill :: "nat \<Rightarrow> nat \<Rightarrow> nat set \<Rightarrow> nat set" where
  "mask_fill a b m = m \<union> {a..<b}"

definition carrier_reset :: "('g, 'u) carrier_sched \<Rightarrow> ('g, 'u) carrier_sched" where
  "carrier_reset c = c\<lparr>ra_sched_ptr := None, bc_sched_ptr := None\<rparr>"

definition carrier_cfg ::
  "('g, 'u) env \<Rightarrow> cell_cfg_t \<Rightarrow> nat \<Rightarrow> ('g, 'u) carrier_sched \<Rightarrow> ('g, 'u) carrier_sched" where
  "carrier_cfg E cfg cfi c =
     c\<lparr>cc_cfg := cfg, nof_ctrl_symbols := cfi,
       bc_sched_ptr := Some (bc_sched_new E),
       ra_sched_ptr := Some \<lparr>pending_rars = [], ra_log = []\<rparr>,
       pucch_mask :=
         (if nrb_pucch cfg > 0 then
            mask_fill (u32_sub (nof_prb cfg) (nat (nrb_pucch cfg))) (nof_prb cfg)
              (mask_fill 0 (nat (nrb_pucch cfg)) {})
          else {}),
       prach_mask := mask_fill (prach_freq_offset cfg) (prach_freq_offset cfg + 6) {}\<rparr>"

definition set_dl_tti_mask ::
  "nat list \<Rightarrow> nat \<Rightarrow> ('g, 'u) carrier_sched \<Rightarrow> fault + ('g, 'u) carrier_sched" where
  "set_dl_tti_mask tti_mask nof_sfs c =
     (if nof_sfs \<le> length tti_mask then Inr (c\<lparr>sf_dl_mask := take nof_sfs tti_mask\<rparr>)
      else Inl Array_out_of_bounds)"

text \<open>\<^verbatim>\<open>carrier_sched::generate_phich\<close>: the loop over the UE map, with the PHICH elements
  written so far; \<^verbatim>\<open>nof_phich_elems\<close> is their number.\<close>

fun generate_phich_loop ::
  "('g, 'u) env \<Rightarrow> nat \<Rightarrow> nat \<Rightarrow> (nat \<times> 'u) list \<Rightarrow> ul_sched_phich_t list \<times> log_msg list \<Rightarrow>
     fault + ul_sched_phich_t list \<times> log_msg list" where
  "generate_phich_loop E cc t [] acc = Inr acc"
| "generate_phich_loop E cc t (ue_pair # rest) acc =
     (let rnti = fst ue_pair; user = snd ue_pair; p = get_cell_index E user cc in
      if \<not> fst p then generate_phich_loop E cc t rest acc
      else if has_pending_ack E user t (snd p) then
        if MAX_PHICH_LIST E \<le> length (fst acc) then Inl Array_out_of_bounds
        else
          (let v = (if get_pending_ack E user t (snd p) then ACK else NACK) in
           generate_phich_loop E cc t rest
             (fst acc @ [\<lparr>phich_rnti = rnti, phich = v\<rparr>], snd acc @ [Phich_allocated rnti v]))
      else generate_phich_loop E cc t rest acc)"

definition generate_phich ::
  "('g, 'u) env \<Rightarrow> ('g, 'u) carrier_sched \<Rightarrow> 'g sf_sched \<Rightarrow> fault + ('g, 'u) carrier_sched \<times> 'g sf_sched" where
  "generate_phich E c tti_sched =
     (case generate_phich_loop E (enb_cc_idx c) (get_tti_rx tti_sched) (ue_db c) ([], log_h c) of
        Inl f \<Rightarrow> Inl f
      | Inr r \<Rightarrow> Inr (c\<lparr>log_h := snd r\<rparr>, tti_sched\<lparr>ul_phich := fst r\<rparr>))"

text \<open>\<^verbatim>\<open>carrier_sched::alloc_dl_users\<close>.\<close>

definition alloc_dl_users ::
  "('g, 'u) env \<Rightarrow> ('g, 'u) carrier_sched \<Rightarrow> 'g sf_sched \<Rightarrow> fault + ('g, 'u) carrier_sched \<times> 'g sf_sched" where
  "alloc_dl_users E c tti_result =
     (let s0 = tti_result\<lparr>calls := calls tti_result @ [Alloc_dl_users]\<rparr> in
      if sf_dl_mask c = [] then Inl Division_by_zero
      else if sf_dl_mask c ! (get_tti_tx_dl E s0 mod length (sf_dl_mask c)) \<noteq> 0 then Inr (c, s0)
      else
        (let s1 = (if nof_prb (cc_cfg c) = 6 \<and>
                      srslte_prach_tti_opportunity_config_fdd E (prach_config (cc_cfg c))
                        (TTI_RX_ACK E (get_tti_rx s0)) (- 1)
                   then s0\<lparr>dl_mask := mask_fill 0 (dl_mask_size E (grid s0)) (dl_mask s0)\<rparr>
                   else s0)
         in case dl_metric_sched_users E (ue_db c) (dl_mask s1, grid s1) of
              (db, m, g) \<Rightarrow>
                Inr (c\<lparr>ue_db := db\<rparr>,
                     s1\<lparr>dl_mask := m, grid := g, calls := calls s1 @ [Dl_metric_sched_users]\<rparr>)))"

text \<open>\<^verbatim>\<open>carrier_sched::alloc_ul_users\<close>. \<open>ul_reserve_prach\<close> is its first step and
  \<open>ul_before_pucch\<close> the slot after its second step, \<^verbatim>\<open>ra_sched_ptr->ul_sched\<close>, that is
  before the check for a collision with the PUCCH and before \<^verbatim>\<open>ul_mask |= pucch_mask\<close>.\<close>

definition ul_reserve_prach ::
  "('g, 'u) env \<Rightarrow> ('g, 'u) carrier_sched \<Rightarrow> 'g sf_sched \<Rightarrow> ('g, 'u) carrier_sched \<times> 'g sf_sched" where
  "ul_reserve_prach E c tti_sched =
     (if srslte_prach_tti_opportunity_config_fdd E (prach_config (cc_cfg c)) (get_tti_tx_ul E tti_sched) (- 1)
      then (c\<lparr>log_h := log_h c @ [Prach_rbs_allocated]\<rparr>, tti_sched\<lparr>ul_mask := prach_mask c\<rparr>)
      else (c, tti_sched))"

definition ul_before_pucch ::
  "('g, 'u) env \<Rightarrow> ('g, 'u) carrier_sched \<Rightarrow> ra_sched \<Rightarrow> 'g sf_sched \<Rightarrow> ra_sched \<times> 'g sf_sched" where
  "ul_before_pucch E c ra tti_sched =
     (case ul_reserve_prach E c (tti_sched\<lparr>calls := calls tti_sched @ [Alloc_ul_users]\<rparr>) of
        (c1, s1) \<Rightarrow> ra_ul_sched E (ue_db c1) ra s1)"

definition alloc_ul_users ::
  "('g, 'u) env \<Rightarrow> ('g, 'u) carrier_sched \<Rightarrow> 'g sf_sched \<Rightarrow> fault + ('g, 'u) carrier_sched \<times> 'g sf_sched" where
  "alloc_ul_users E c tti_sched =
     (case ul_reserve_prach E c (tti_sched\<lparr>calls := calls tti_sched @ [Alloc_ul_users]\<rparr>) of
        (c1, s1) \<Rightarrow>
          (case ra_sched_ptr c1 of
             None \<Rightarrow> Inl Null_dereference
           | Some ra \<Rightarrow>
               (case ra_ul_sched E (ue_db c1) ra s1 of
                  (ra', s2) \<Rightarrow>
                    (let c2 = c1\<lparr>ra_sched_ptr := Some ra',
                                 log_h := (if nof_prb (cc_cfg c1) \<noteq> 6 \<and> ul_mask s2 \<inter> pucch_mask c1 \<noteq> {}
                                           then log_h c1 @ [Pucch_collision] else log_h c1)\<rparr>;
                         s3 = s2\<lparr>ul_mask := ul_mask s2 \<union> pucch_mask c1\<rparr>
                     in case ul_metric_sched_users E (ue_db c2) (ul_mask s3, grid s3) of
                          (db, m, g) \<Rightarrow>
                            Inr (c2\<lparr>ue_db := db\<rparr>,
                                 s3\<lparr>ul_mask := m, grid := g, calls := calls s3 @ [Ul_metric_sched_users]\<rparr>)))))"

text \<open>\<^verbatim>\<open>carrier_sched::generate_tti_result\<close>, in the steps of the source: the downlink control
  data (lines 359-365), the user data in round-robin order (lines 367-377), and the end
  of the TTI (lines 379-391), where the slot goes back into the ring before the slot of
  the Msg3 is taken from it.\<close>

definition sched_dl_ctrl ::
  "('g, 'u) env \<Rightarrow> ('g, 'u) carrier_sched \<Rightarrow> 'g sf_sched \<Rightarrow> (fault + ('g, 'u) carrier_sched \<times> 'g sf_sched) option" where
  "sched_dl_ctrl E c tti_sched =
     (case bc_sched_ptr c of
        None \<Rightarrow> Some (Inl Null_dereference)
      | Some bc \<Rightarrow>
          (case bc_dl_sched E (cc_cfg c) bc tti_sched of
             Inl f \<Rightarrow> Some (Inl f)
           | Inr st1 \<Rightarrow>
               (case ra_sched_ptr c of
                  None \<Rightarrow> Some (Inl Null_dereference)
                | Some ra \<Rightarrow>
                    (case ra_dl_sched E (cc_cfg c) ra (snd st1) of
                       None \<Rightarrow> None
                     | Some (Inl f) \<Rightarrow> Some (Inl f)
                     | Some (Inr st2) \<Rightarrow>
                         Some (Inr (c\<lparr>bc_sched_ptr := Some (fst st1), ra_sched_ptr := Some (fst st2)\<rparr>,
                                    snd st2))))))"

definition sched_user_data ::
  "('g, 'u) env \<Rightarrow> nat \<Rightarrow> ('g, 'u) carrier_sched \<Rightarrow> 'g sf_sched \<Rightarrow> fault + ('g, 'u) carrier_sched \<times> 'g sf_sched" where
  "sched_user_data E t c tti_sched =
     (case (if t mod 2 = 0 then alloc_ul_users E c tti_sched else Inr (c, tti_sched)) of
        Inl f \<Rightarrow> Inl f
      | Inr st1 \<Rightarrow>
          (case alloc_dl_users E (fst st1) (snd st1) of
             Inl f \<Rightarrow> Inl f
           | Inr st2 \<Rightarrow>
               if t mod 2 = 1 then alloc_ul_users E (fst st2) (snd st2) else Inr st2))"

text \<open>Modelled from the spec: \<^verbatim>\<open>get_sf_sched\<close> is declared outside this file. The ring of
  slots is indexed by \<open>tti_rx mod RING\<close>; this is the index of the slot it returns.\<close>

definition get_sf_sched_idx :: "('g, 'u) carrier_sched \<Rightarrow> nat \<Rightarrow> nat" where
  "get_sf_sched_idx c t = t mod length (sf_scheds c)"

definition finish_tti_result ::
  "('g, 'u) env \<Rightarrow> nat \<Rightarrow> bool \<Rightarrow> ('g, 'u) carrier_sched \<Rightarrow> 'g sf_sched \<Rightarrow> fault + ('g, 'u) carrier_sched" where
  "finish_tti_result E t dl_active c tti_sched =
     (case generate_dcis_grid E (ue_db c, grid tti_sched) of
        (db, g) \<Rightarrow>
          (let s1 = tti_sched\<lparr>grid := g, calls := calls tti_sched @ [Generate_dcis]\<rparr>;
               c1 = c\<lparr>ue_db := db, sf_scheds := (sf_scheds c)[get_sf_sched_idx c t := s1]\<rparr>
           in case (if dl_active then
                      (case ra_sched_ptr c1 of
                         None \<Rightarrow> Inl Null_dereference
                       | Some ra \<Rightarrow>
                           (let j = get_sf_sched_idx c1 (u32_add t (MSG3_DELAY_MS E)) in
                            case sched_msg3 E (cc_cfg c1) ra (sf_scheds c1 ! j) (dl_sched_result_rar E (grid s1)) of
                              (ra', sm) \<Rightarrow>
                                Inr (c1\<lparr>ra_sched_ptr := Some ra', sf_scheds := (sf_scheds c1)[j := sm]\<rparr>)))
                    else Inr c1) of
                Inl f \<Rightarrow> Inl f
              | Inr c2 \<Rightarrow>
                  Inr (c2\<lparr>ue_db := map (\<lambda>user. (fst user, finish_tti E t (enb_cc_idx c2) (snd user))) (ue_db c2)\<rparr>)))"

text \<open>The result is the index in the ring of the slot that the C++ returns a pointer to,
  and the carrier scheduler after the call. \<^verbatim>\<open>dl_active\<close> is read before \<^verbatim>\<open>new_tti\<close>, from
  the TTI that the slot was bound to.\<close>

definition generate_tti_result ::
  "('g, 'u) env \<Rightarrow> nat \<Rightarrow> ('g, 'u) carrier_sched \<Rightarrow> (fault + nat \<times> ('g, 'u) carrier_sched) option" where
  "generate_tti_result E t c =
     (if sf_scheds c = [] then Some (Inl Division_by_zero)
      else
        (let tti_sched = sf_scheds c ! get_sf_sched_idx c t in
         if t \<noteq> get_tti_rx tti_sched then
           if sf_dl_mask c = [] then Some (Inl Division_by_zero)
           else
             (let dl_active = (sf_dl_mask c ! (get_tti_tx_dl E tti_sched mod length (sf_dl_mask c)) = 0);
                  s1 = new_tti E t (nof_ctrl_symbols c) tti_sched
              in case generate_phich E c s1 of
                   Inl f \<Rightarrow> Some (Inl f)
                 | Inr st2 \<Rightarrow>
                     (case (if dl_active then sched_dl_ctrl E (fst st2) (snd st2) else Some (Inr st2)) of
                        None \<Rightarrow> None
                      | Some (Inl f) \<Rightarrow> Some (Inl f)
                      | Some (Inr st3) \<Rightarrow>
                          (case sched_user_data E t (fst st3) (snd st3) of
                             Inl f \<Rightarrow> Some (Inl f)
                           | Inr st4 \<Rightarrow>
                               (case finish_tti_result E t dl_active (fst st4) (snd st4) of
                                  Inl f \<Rightarrow> Some (Inl f)
                                | Inr c5 \<Rightarrow> Some (Inr (get_sf_sched_idx c t, c5))))))
         else Some (Inr (get_sf_sched_idx c t, c))))"

definition carrier_dl_rach_info ::
  "('g, 'u) env \<Rightarrow> ('g, 'u) carrier_sched \<Rightarrow> dl_sched_rar_info_t \<Rightarrow> fault + int \<times> ('g, 'u) carrier_sched" where
  "carrier_dl_rach_info E c rar_info =
     (case ra_sched_ptr c of
        None \<Rightarrow> Inl Null_dereference
      | Some ra \<Rightarrow>
          (case dl_rach_info E ra rar_info of
             Inl f \<Rightarrow> Inl f
           | Inr r \<Rightarrow> Inr (fst r, c\<lparr>ra_sched_ptr := Some (snd r)\<rparr>)))"

fun is_alloc_users :: "sf_call \<Rightarrow> bool" where
  "is_alloc_users Alloc_ul_users = True"
| "is_alloc_users Alloc_dl_users = True"
| "is_alloc_users c = False"

text \<open>What the downlink control phase of a TTI leaves as it is in a slot: the TTI, the
  uplink mask, the PHICH elements, the pending Msg3, and the record of the calls to
  \<^verbatim>\<open>alloc_ul_users\<close> and \<^verbatim>\<open>alloc_dl_users\<close>.\<close>

definition dl_frame :: "'g sf_sched \<Rightarrow> 'g sf_sched \<Rightarrow> bool" where
  "dl_frame s s' \<longleftrightarrow>
     tti_rx s' = tti_rx s \<and> ul_mask s' = ul_mask s \<and> ul_phich s' = ul_phich s \<and>
     pending_msg3 s' = pending_msg3 s \<and>
     filter is_alloc_users (calls s') = filter is_alloc_users (calls s)"

text \<open>What the scheduling steps of a TTI leave as it is in the carrier scheduler: the
  ring of slots, the downlink blackout vector, the configuration and the masks.\<close>

definition carrier_frame :: "('g, 'u) carrier_sched \<Rightarrow> ('g, 'u) carrier_sched \<Rightarrow> bool" where
  "carrier_frame c c' \<longleftrightarrow>
     sf_scheds c' = sf_scheds c \<and> sf_dl_mask c' = sf_dl_mask c \<and> cc_cfg c' = cc_cfg c \<and>
     enb_cc_idx c' = enb_cc_idx c \<and> nof_ctrl_symbols c' = nof_ctrl_symbols c \<and>
     pucch_mask c' = pucch_mask c \<and> prach_mask c' = prach_mask c"

subsection \<open>Example configurations\<close>

text \<open>A stub of the environment, parametrised by the behaviour of \<^verbatim>\<open>alloc_rar\<close>: every other
  primitive succeeds, \<^verbatim>\<open>alloc_ul\<close> marks the PRBs it is given, the metrics allocate nothing,
  and the \<open>grid\<close> is a counter that \<^verbatim>\<open>alloc_rar\<close> may use. A UE is the flag that its uplink
  HARQ process has a pending acknowledgement, which is an ACK on even TTIs.\<close>

definition stub_env ::
  "(nat \<Rightarrow> pending_rar_t \<Rightarrow> rbgmask \<times> nat \<Rightarrow> (alloc_outcome_t \<times> nat) \<times> rbgmask \<times> nat) \<Rightarrow> (nat, bool) env" where
  "stub_env ar =
     \<lparr>MAX_RAR_LIST = 4, MAX_PHICH_LIST = 4, MAX_SIBS = 1, MSG3_DELAY_MS = 6, TX_DELAY = 4, UL_DELAY = 8,
      TTI_RX_ACK = (\<lambda>t. t + 8),
      new_tti_grid = (\<lambda>t cfi g. 0),
      dl_mask_size = (\<lambda>g. 13),
      alloc_bc = (\<lambda>a i n mg. (SUCCESS, mg)),
      alloc_paging = (\<lambda>a p mg. (SUCCESS, mg)),
      alloc_rar = ar,
      alloc_ul = (\<lambda>rnti u al ty mcs mg. (True, fst mg \<union> {fst al ..< fst al + snd al}, snd mg)),
      dl_metric_sched_users = (\<lambda>db mg. (db, mg)),
      ul_metric_sched_users = (\<lambda>db mg. (db, mg)),
      generate_dcis_grid = (\<lambda>x. x),
      dl_sched_result_rar = (\<lambda>g. []),
      is_paging_opportunity = Some (\<lambda>t. (False, 0)),
      srslte_prach_tti_opportunity_config_fdd = (\<lambda>c t n. t mod 10 = 1),
      srslte_ra_type2_from_riv = (\<lambda>riv n1 n2. (riv div n1 + 1, riv mod n1)),
      get_cell_index = (\<lambda>u cc. (True, 0)),
      has_pending_ack = (\<lambda>u t c. u),
      get_pending_ack = (\<lambda>u t c. even t),
      finish_tti = (\<lambda>t cc u. u)\<rparr>"

definition alloc_rar_dci_collision ::
  "nat \<Rightarrow> pending_rar_t \<Rightarrow> rbgmask \<times> nat \<Rightarrow> (alloc_outcome_t \<times> nat) \<times> rbgmask \<times> nat" where
  "alloc_rar_dci_collision a r x = ((DCI_COLLISION, 0), x)"

definition alloc_rar_two_then_one ::
  "nat \<Rightarrow> pending_rar_t \<Rightarrow> rbgmask \<times> nat \<Rightarrow> (alloc_outcome_t \<times> nat) \<times> rbgmask \<times> nat" where
  "alloc_rar_two_then_one a r x = ((SUCCESS, if snd x = 0 then 2 else 1), fst x, Suc (snd x))"

definition env_dci :: "(nat, bool) env" where
  "env_dci = stub_env alloc_rar_dci_collision"

definition cfg_25prb :: cell_cfg_t where
  "cfg_25prb = \<lparr>nof_prb = 25, sibs = [\<lparr>len = 18, period_rf = 8\<rparr>], si_window_ms = 40,
                 prach_rar_window = 10, prach_config = 3, prach_freq_offset = 2, nrb_pucch = 2\<rparr>"

definition fresh_slot :: "nat \<Rightarrow> nat sf_sched" where
  "fresh_slot t = \<lparr>tti_rx = t, dl_mask = {}, ul_mask = {}, pending_msg3 = [], ul_phich = [],
                    calls = [], grid = 0\<rparr>"

definition rach :: "nat \<Rightarrow> nat \<Rightarrow> dl_sched_rar_info_t" where
  "rach p t = \<lparr>preamble_idx = p, ta_cmd = 0, temp_crnti = 70 + p, msg3_size = 7, info_prach_tti = t\<rparr>"

definition rar_full :: pending_rar_t where
  "rar_full = \<lparr>ra_rnti = 1, prach_tti = 200, nof_grants = 4,
                msg3_grant = [rach 0 200, rach 1 200, rach 2 200, rach 3 200]\<rparr>"

definition rar3 :: pending_rar_t where
  "rar3 = \<lparr>ra_rnti = 1, prach_tti = 100, nof_grants = 3,
            msg3_grant = [rach 0 100, rach 1 100, rach 2 100, zero_rar_info]\<rparr>"

definition ra_one :: ra_sched where
  "ra_one = \<lparr>pending_rars = [rar3], ra_log = []\<rparr>"

definition ra_at_wrap :: ra_sched where
  "ra_at_wrap = \<lparr>pending_rars = [\<lparr>ra_rnti = 10, prach_tti = 10239, nof_grants = 1,
      msg3_grant = [rach 0 10239, zero_rar_info, zero_rar_info, zero_rar_info]\<rparr>], ra_log = []\<rparr>"




definition carrier_example :: "(nat, bool) carrier_sched" where
  "carrier_example =
     carrier_cfg env_dci cfg_25prb 3
       \<lparr>cc_cfg = cfg_25prb, nof_ctrl_symbols = 0, enb_cc_idx = 0, ue_db = [(70, True), (71, False)],
        sf_dl_mask = [0], pucch_mask = {}, prach_mask = {}, bc_sched_ptr = None, ra_sched_ptr = None,
        sf_scheds = replicate 10 (fresh_slot 10241), log_h = []\<rparr>"

definition slot_with_msg3 :: "nat sf_sched" where
  "slot_with_msg3 =
     (fresh_slot 3)\<lparr>pending_msg3 := [\<lparr>msg3_rnti = 70, msg3_L = 2, msg3_n_prb = 0, msg3_mcs = 0\<rparr>]\<rparr>"

definition carrier_blackout :: "(nat, bool) carrier_sched" where
  "carrier_blackout = carrier_example\<lparr>sf_dl_mask := [1]\<rparr>"


section \<open>Properties\<close>

subsection \<open>An invariant rule for the loop of \<^verbatim>\<open>ra_sched::dl_sched\<close>\<close>


lemma ra_dl_sched_loop_rule:
  assumes run: "ra_dl_sched_loop E cfg t st = Some y"
    and init: "I st"
    and cont: "\<And>st st'. I st \<Longrightarrow> pending_rars (fst st) \<noteq> [] \<Longrightarrow>
                 ra_dl_sched_body E cfg t st = Continue st' \<Longrightarrow> I st'"
    and ret: "\<And>st st'. I st \<Longrightarrow> pending_rars (fst st) \<noteq> [] \<Longrightarrow>
                 ra_dl_sched_body E cfg t st = Return st' \<Longrightarrow> Q (Inr st')"
    and emp: "\<And>st. I st \<Longrightarrow> pending_rars (fst st) = [] \<Longrightarrow> Q (Inr st)"
    and flt: "\<And>st f. I st \<Longrightarrow> pending_rars (fst st) \<noteq> [] \<Longrightarrow>
                 ra_dl_sched_body E cfg t st = Fault f \<Longrightarrow> Q (Inl f)"
  shows "Q y"
proof -
  have "E' = E \<and> cfg' = cfg \<and> t' = t \<and> I st \<longrightarrow> Q y"
    if "ra_dl_sched_loop E' cfg' t' st = Some y" for E' cfg' t' st y
    using that
  proof (induction rule: ra_dl_sched_loop.raw_induct[rotated 1, consumes 1])
    case (1 loop E' cfg' t' st y)
    show ?case
    proof (intro impI, elim conjE)
      assume eq: "E' = E" "cfg' = cfg" "t' = t" and I: "I st"
      show "Q y"
      proof (cases "pending_rars (fst st) = []")
        case True
        with 1(2) have "y = Inr st" by simp
        with emp[OF I True] show ?thesis by simp
      next
        case False
        show ?thesis
        proof (cases "ra_dl_sched_body E cfg t st")
          case (Continue st')
          with 1(2) False eq have "loop E' cfg' t' st' = Some y" by simp
          from 1(1)[OF this] eq cont[OF I False Continue] show ?thesis by simp
        next
          case (Return st')
          with 1(2) False eq have "y = Inr st'" by simp
          with ret[OF I False Return] show ?thesis by simp
        next
          case (Fault f)
          with 1(2) False eq have "y = Inl f" by simp
          with flt[OF I False Fault] show ?thesis by simp
        qed
      qed
    qed
  qed
  from this[OF run] init show ?thesis by simp
qed

subsection \<open>The body of the loop\<close>


lemma body_before_window:
  assumes "pending_rars ra = r # rs"
    and "prach_tti r + 3 + prach_rar_window cfg < 4294967296"
    and "t < prach_tti r + 3"
  shows "ra_dl_sched_body E cfg t (ra, s) = Return (ra, s)"
  using assms by (simp add: ra_dl_sched_body_def u32_add_def is_in_tti_interval_def Let_def)


lemma body_in_window:
  assumes "pending_rars ra = r # rs"
    and "prach_tti r + 3 + prach_rar_window cfg < 4294967296"
    and "prach_tti r + 3 \<le> t" and "t < prach_tti r + 3 + prach_rar_window cfg"
  shows "ra_dl_sched_body E cfg t (ra, s) =
           (let ret = fst (sf_alloc_rar E 2 r s); s' = snd (sf_alloc_rar E 2 r s) in
              if fst ret = SUCCESS then
                if snd ret = nof_grants r then Continue (ra\<lparr>pending_rars := rs\<rparr>, s')
                else if snd ret > 0 then
                  if snd ret > nof_grants r then Fault Invalid_range
                  else Continue
                    (ra\<lparr>pending_rars :=
                          r\<lparr>msg3_grant := copy_to_front (snd ret) (nof_grants r) (msg3_grant r),
                            nof_grants := nof_grants r - snd ret\<rparr> # rs\<rparr>, s')
                else Continue (ra, s')
              else if fst ret = RB_COLLISION then Return (ra, s')
              else Continue (ra, s'))"
  using assms
  by (simp add: ra_dl_sched_body_def u32_add_def is_in_tti_interval_def Let_def split: prod.splits)


lemma sf_alloc_rar_frame:
  "tti_rx (snd (sf_alloc_rar E a r s)) = tti_rx s"
  "ul_mask (snd (sf_alloc_rar E a r s)) = ul_mask s"
  "ul_phich (snd (sf_alloc_rar E a r s)) = ul_phich s"
  "pending_msg3 (snd (sf_alloc_rar E a r s)) = pending_msg3 s"
  by (simp_all add: sf_alloc_rar_def split: prod.splits)



lemma sf_alloc_rar_ret: "fst (sf_alloc_rar E a r s) = fst (alloc_rar E a r (dl_mask s, grid s))"
  by (simp add: sf_alloc_rar_def split: prod.splits)

lemma ra_dl_sched_loop_spins:
  assumes q: "pending_rars ra = r # rs"
    and nw: "prach_tti r + 3 + prach_rar_window cfg < 4294967296"
    and lo: "prach_tti r + 3 \<le> t" and hi: "t < prach_tti r + 3 + prach_rar_window cfg"
    and dci: "\<And>x. fst (fst (alloc_rar E 2 r x)) = DCI_COLLISION"
  shows "ra_dl_sched_loop E cfg t (ra, s) = None"
proof (rule ccontr)
  assume "ra_dl_sched_loop E cfg t (ra, s) \<noteq> None"
  then obtain y where run: "ra_dl_sched_loop E cfg t (ra, s) = Some y" by auto
  define I :: "ra_sched \<times> 'a sf_sched \<Rightarrow> bool" where "I = (\<lambda>st. fst st = ra)"
  define Q :: "fault + ra_sched \<times> 'a sf_sched \<Rightarrow> bool" where "Q = (\<lambda>y. False)"
  have body: "ra_dl_sched_body E cfg t (ra, s') = Continue (ra, snd (sf_alloc_rar E 2 r s'))" for s'
    unfolding body_in_window[OF q nw lo hi] Let_def
    by (simp add: sf_alloc_rar_ret dci)
  have "Q y"
  proof (rule ra_dl_sched_loop_rule[where I = I and Q = Q, OF run])
    show "I (ra, s)" by (simp add: I_def)
  qed (auto simp: I_def body q)
  then show False by (simp add: Q_def)
qed



lemma ra_dl_sched_loop_before_window:
  assumes "pending_rars ra = r # rs"
    and "prach_tti r + 3 + prach_rar_window cfg < 4294967296"
    and "t < prach_tti r + 3"
  shows "ra_dl_sched_loop E cfg t (ra, s) = Some (Inr (ra, s))"
  by (subst ra_dl_sched_loop.simps) (simp add: assms body_before_window[OF assms])

subsection \<open>Order of the pending RARs\<close>

lemma dl_rach_info_find_ttis:
  "dl_rach_info_find cap rnti info q = Some (Inr q') \<Longrightarrow> map prach_tti q' = map prach_tti q"
proof (induction q arbitrary: q')
  case Nil
  then show ?case by simp
next
  case (Cons r rs)
  show ?case
  proof (cases "prach_tti r = info_prach_tti info \<and> rnti = ra_rnti r")
    case True
    with Cons.prems show ?thesis by (auto split: if_splits)
  next
    case False
    with Cons.prems obtain q'' where "dl_rach_info_find cap rnti info rs = Some (Inr q'')" "q' = r # q''"
      by (cases "dl_rach_info_find cap rnti info rs") (auto simp: map_sum_def split: sum.splits)
    with Cons.IH show ?thesis by simp
  qed
qed

lemma dl_rach_info_ttis:
  assumes "dl_rach_info E ra info = Inr (rc, ra')"
  shows "map prach_tti (pending_rars ra') = map prach_tti (pending_rars ra) \<or>
         map prach_tti (pending_rars ra') = map prach_tti (pending_rars ra) @ [info_prach_tti info]"
  using assms
  by (auto simp: dl_rach_info_def Let_def dest: dl_rach_info_find_ttis split: option.splits sum.splits if_splits)

lemma dl_rach_info_returns_success:
  "dl_rach_info E ra info = Inr (rc, ra') \<Longrightarrow> rc = SRSLTE_SUCCESS"
  by (auto simp: dl_rach_info_def Let_def split: option.splits sum.splits if_splits)

lemma ra_ul_sched_loop_rars:
  "pending_rars (fst (ra_ul_sched_loop E db ms (ra, s))) = pending_rars ra"
  by (induction ms arbitrary: ra s) (auto split: option.splits prod.splits)

lemma body_sorted:
  assumes q: "pending_rars ra \<noteq> []"
    and srt: "sorted (map prach_tti (pending_rars ra))"
    and res: "ra_dl_sched_body E cfg t (ra, s) = Continue (ra', s') \<or>
              ra_dl_sched_body E cfg t (ra, s) = Return (ra', s')"
  shows "sorted (map prach_tti (pending_rars ra'))"
proof -
  obtain r rs where q': "pending_rars ra = r # rs" using q by (cases "pending_rars ra") auto
  from res srt q' show ?thesis
    unfolding ra_dl_sched_body_def Let_def
    by (auto split: if_splits prod.splits)
qed

lemma ra_dl_sched_loop_sorted:
  assumes run: "ra_dl_sched_loop E cfg t st = Some (Inr st')"
    and srt: "sorted (map prach_tti (pending_rars (fst st)))"
  shows "sorted (map prach_tti (pending_rars (fst st')))"
proof -
  define I :: "ra_sched \<times> 'a sf_sched \<Rightarrow> bool"
    where "I = (\<lambda>st. sorted (map prach_tti (pending_rars (fst st))))"
  define Q :: "fault + ra_sched \<times> 'a sf_sched \<Rightarrow> bool"
    where "Q = (\<lambda>y. \<forall>x. y = Inr x \<longrightarrow> I x)"
  have c: "I st'" if "I st" "pending_rars (fst st) \<noteq> []" "ra_dl_sched_body E cfg t st = Continue st'" for st st'
    using body_sorted[of "fst st" E cfg t "snd st" "fst st'" "snd st'"] that by (simp add: I_def)
  have r: "I st'" if "I st" "pending_rars (fst st) \<noteq> []" "ra_dl_sched_body E cfg t st = Return st'" for st st'
    using body_sorted[of "fst st" E cfg t "snd st" "fst st'" "snd st'"] that by (simp add: I_def)
  have "Q (Inr st')"
  proof (rule ra_dl_sched_loop_rule[where I = I and Q = Q, OF run])
    show "I st" using srt by (simp add: I_def)
  qed (auto simp: Q_def intro: c r)
  then show ?thesis by (cases st') (auto simp: Q_def I_def)
qed

text \<open>
  Claim C4, as amended. The claim says that after every call to an operation of \<^verbatim>\<open>ra_sched\<close>
  the queue \<^verbatim>\<open>pending_rars\<close> is ordered by \<^verbatim>\<open>prach_tti\<close>, non-decreasing from head to tail.
  \<^verbatim>\<open>dl_rach_info\<close> appends a new pending RAR at the tail without comparing its PRACH TTI with
  the queue, so this holds only for the callers that report PRACHs in TTI order. What
  holds: from an ordered queue, \<^verbatim>\<open>dl_rach_info\<close> returns an ordered queue whenever the
  reported \<^verbatim>\<open>prach_tti\<close> is at least the \<^verbatim>\<open>prach_tti\<close> of every pending RAR; \<^verbatim>\<open>dl_sched\<close>, when it
  returns, leaves the queue ordered; \<^verbatim>\<open>ul_sched\<close> does not change the queue; \<^verbatim>\<open>reset\<close>
  empties it.
\<close>

theorem pending_rars_order_preserved:
  assumes "sorted (map prach_tti (pending_rars ra))"
  shows "(\<forall>rc ra'. dl_rach_info E ra info = Inr (rc, ra') \<and>
            (\<forall>r \<in> set (pending_rars ra). prach_tti r \<le> info_prach_tti info) \<longrightarrow>
            sorted (map prach_tti (pending_rars ra'))) \<and>
         (\<forall>ra' s'. ra_dl_sched E cfg ra s = Some (Inr (ra', s')) \<longrightarrow>
            sorted (map prach_tti (pending_rars ra'))) \<and>
         pending_rars (fst (ra_ul_sched E db ra s)) = pending_rars ra \<and>
         pending_rars (ra_reset ra) = []"
proof (intro conjI allI impI)
  fix rc ra'
  assume h: "dl_rach_info E ra info = Inr (rc, ra') \<and>
             (\<forall>r \<in> set (pending_rars ra). prach_tti r \<le> info_prach_tti info)"
  from dl_rach_info_ttis[of E ra info rc ra'] h assms
  show "sorted (map prach_tti (pending_rars ra'))"
    by (auto simp: sorted_append)
next
  fix ra' s'
  assume "ra_dl_sched E cfg ra s = Some (Inr (ra', s'))"
  then have "ra_dl_sched_loop E cfg (get_tti_tx_dl E s) (ra, s) = Some (Inr (ra', s'))"
    by (simp add: ra_dl_sched_def)
  from ra_dl_sched_loop_sorted[OF this] assms
  show "sorted (map prach_tti (pending_rars ra'))" by simp
next
  show "pending_rars (fst (ra_ul_sched E db ra s)) = pending_rars ra"
    by (simp add: ra_ul_sched_def ra_ul_sched_loop_rars)
next
  show "pending_rars (ra_reset ra) = []" by (simp add: ra_reset_def)
qed

theorem pending_rars_order_preserved_witness:
  "sorted (map prach_tti (pending_rars ra_one)) \<and>
   prach_tti rar3 \<le> info_prach_tti (rach 7 104) \<and>
   isl (dl_rach_info env_dci ra_one (rach 7 104)) = False \<and>
   sorted (map prach_tti (pending_rars (snd (projr (dl_rach_info env_dci ra_one (rach 7 104)))))) \<and>
   ra_dl_sched env_dci cfg_25prb ra_one (fresh_slot 90) = Some (Inr (ra_one, fresh_slot 90)) \<and>
   pending_rars (fst (ra_ul_sched env_dci [] ra_one (fresh_slot 90))) = [rar3]"
proof -
  have srt: "sorted (map prach_tti (pending_rars ra_one))" by (simp add: ra_one_def)
  have le: "prach_tti rar3 \<le> info_prach_tti (rach 7 104)" by (simp add: rar3_def rach_def)
  have ok: "isl (dl_rach_info env_dci ra_one (rach 7 104)) = False"
    by (simp add: dl_rach_info_def env_dci_def stub_env_def ra_one_def rar3_def rach_def)
  then obtain rc ra' where eq: "dl_rach_info env_dci ra_one (rach 7 104) = Inr (rc, ra')"
    by (cases "dl_rach_info env_dci ra_one (rach 7 104)") auto
  have run: "ra_dl_sched env_dci cfg_25prb ra_one (fresh_slot 90) = Some (Inr (ra_one, fresh_slot 90))"
    unfolding ra_dl_sched_def
    by (rule ra_dl_sched_loop_before_window[where r = rar3 and rs = "[]"])
       (simp_all add: ra_one_def rar3_def cfg_25prb_def get_tti_tx_dl_def fresh_slot_def env_dci_def stub_env_def)
  from pending_rars_order_preserved[OF srt, of env_dci "rach 7 104" cfg_25prb "fresh_slot 90" "[]"] eq le run
  have "sorted (map prach_tti (pending_rars ra'))"
    and "pending_rars (fst (ra_ul_sched env_dci [] ra_one (fresh_slot 90))) = pending_rars ra_one"
    by (auto simp: ra_one_def)
  with srt le ok eq run show ?thesis by (simp add: ra_one_def)
qed

text \<open>
  Claim C4 as stated fails: a PRACH at TTI 10239 is pending and the next PRACH is reported
  after the TTI counter has wrapped, at TTI 2. \<^verbatim>\<open>dl_rach_info\<close> returns success and the queue
  holds the PRACH TTIs 10239, 2: the head is larger than the entry behind it.
\<close>

theorem pending_rars_order_counterexample:
  "sorted (map prach_tti (pending_rars ra_at_wrap)) \<and>
   isl (dl_rach_info env_dci ra_at_wrap (rach 7 2)) = False \<and>
   fst (projr (dl_rach_info env_dci ra_at_wrap (rach 7 2))) = SRSLTE_SUCCESS \<and>
   map prach_tti (pending_rars (snd (projr (dl_rach_info env_dci ra_at_wrap (rach 7 2))))) = [10239, 2] \<and>
   \<not> sorted (map prach_tti (pending_rars (snd (projr (dl_rach_info env_dci ra_at_wrap (rach 7 2))))))"
  by (simp add: dl_rach_info_def env_dci_def stub_env_def ra_at_wrap_def rach_def)

subsection \<open>The RAR window\<close>







subsection \<open>A saturated preamble list\<close>

lemma dl_rach_info_saturated:
  assumes "pending_rars ra = r # rs"
    and "prach_tti r = info_prach_tti rar_info" and "ra_rnti r = 1 + info_prach_tti rar_info mod 10"
    and "MAX_RAR_LIST E \<le> nof_grants r"
  shows "dl_rach_info E ra rar_info = Inl Array_out_of_bounds"
  using assms by (simp add: dl_rach_info_def)

text \<open>
  Claim C1 says that \<^verbatim>\<open>dl_rach_info\<close> returns a failure and leaves the queue as it was when
  the pending RAR of the same PRACH TTI and RA-RNTI already holds \<open>MAX_RAR_LIST\<close> grants.
  The source has no such check: every \<^verbatim>\<open>return\<close> of the function is \<^verbatim>\<open>SRSLTE_SUCCESS\<close>
  (\<open>dl_rach_info_returns_success\<close>), and with \<open>MAX_RAR_LIST = 4\<close> and four grants pending for
  PRACH TTI 200, a fifth preamble of that TTI is written to \<^verbatim>\<open>msg3_grant[4]\<close>, past the end
  of the array.
\<close>

theorem dl_rach_info_saturated_overruns:
  "nof_grants rar_full = MAX_RAR_LIST env_dci \<and>
   dl_rach_info env_dci \<lparr>pending_rars = [rar_full], ra_log = []\<rparr> (rach 9 200) = Inl Array_out_of_bounds"
  by (simp add: dl_rach_info_def env_dci_def stub_env_def rar_full_def rach_def)

subsection \<open>A partial grant\<close>

lemma ra_dl_sched_body_partial_grant:
  assumes "pending_rars ra = r # rs"
    and "prach_tti r + 3 + prach_rar_window cfg < 4294967296"
    and "prach_tti r + 3 \<le> t" and "t < prach_tti r + 3 + prach_rar_window cfg"
    and "fst (sf_alloc_rar E 2 r s) = (SUCCESS, n)" and "0 < n" and "n < nof_grants r"
  shows "ra_dl_sched_body E cfg t (ra, s) =
           Continue (ra\<lparr>pending_rars :=
                         r\<lparr>msg3_grant := copy_to_front n (nof_grants r) (msg3_grant r),
                           nof_grants := nof_grants r - n\<rparr> # rs\<rparr>,
                     snd (sf_alloc_rar E 2 r s))"
  using assms(5-7) unfolding body_in_window[OF assms(1-4)] Let_def by simp

text \<open>
  Claim C2 says that after a partial grant (\<^verbatim>\<open>alloc_rar\<close> returns \<^verbatim>\<open>SUCCESS\<close> with a count that is
  positive and below \<^verbatim>\<open>nof_grants\<close>) the unsent grants move to the front, \<^verbatim>\<open>nof_grants\<close> drops
  by the count, the RAR stays at the head and the loop stops for this TTI. The first
  three hold for the pass through the loop body (\<open>ra_dl_sched_body_partial_grant\<close>), but the
  body ends without \<^verbatim>\<open>return\<close>: the loop runs again on the same head in the same TTI.
  With three grants pending and an \<^verbatim>\<open>alloc_rar\<close> that places two and, called again, one,
  \<^verbatim>\<open>dl_sched\<close> calls \<^verbatim>\<open>alloc_rar\<close> twice and returns with the queue empty.
\<close>

theorem ra_dl_sched_partial_grant_continues:
  "ra_dl_sched (stub_env alloc_rar_two_then_one) cfg_25prb ra_one (fresh_slot 101)
     = Some (Inr (\<lparr>pending_rars = [], ra_log = []\<rparr>,
           (fresh_slot 101)\<lparr>calls := [Alloc_rar 2 rar3,
              Alloc_rar 2 (rar3\<lparr>msg3_grant := [rach 2 100, rach 1 100, rach 2 100, zero_rar_info],
                                nof_grants := 1\<rparr>)],
              grid := 2\<rparr>))"
  apply (simp add: ra_dl_sched_def get_tti_tx_dl_def)
  apply (subst ra_dl_sched_loop.simps)
  apply (simp add: ra_dl_sched_body_def u32_add_def is_in_tti_interval_def sf_alloc_rar_def copy_to_front_def
           stub_env_def cfg_25prb_def fresh_slot_def rar3_def ra_one_def alloc_rar_two_then_one_def)
  apply (subst ra_dl_sched_loop.simps)
  apply (simp add: ra_dl_sched_body_def u32_add_def is_in_tti_interval_def sf_alloc_rar_def copy_to_front_def
           stub_env_def cfg_25prb_def fresh_slot_def rar3_def ra_one_def alloc_rar_two_then_one_def)
  apply (subst ra_dl_sched_loop.simps)
  apply (simp add: ra_dl_sched_body_def u32_add_def is_in_tti_interval_def sf_alloc_rar_def copy_to_front_def
           stub_env_def cfg_25prb_def fresh_slot_def rar3_def ra_one_def alloc_rar_two_then_one_def)
  done

subsection \<open>Termination of \<^verbatim>\<open>ra_sched::dl_sched\<close>\<close>

lemma ra_dl_sched_body_success_zero:
  assumes "pending_rars ra = r # rs"
    and "prach_tti r + 3 + prach_rar_window cfg < 4294967296"
    and "prach_tti r + 3 \<le> t" and "t < prach_tti r + 3 + prach_rar_window cfg"
    and "fst (sf_alloc_rar E 2 r s) = (SUCCESS, 0)" and "0 < nof_grants r"
  shows "ra_dl_sched_body E cfg t (ra, s) = Continue (ra, snd (sf_alloc_rar E 2 r s))"
  using assms(5-6) unfolding body_in_window[OF assms(1-4)] Let_def by simp

text \<open>
  Claim C10 says that \<^verbatim>\<open>dl_sched\<close> terminates whenever \<^verbatim>\<open>alloc_rar\<close> never returns \<^verbatim>\<open>SUCCESS\<close> with
  a count of 0. The body also ends without a pop, a decrement or a \<^verbatim>\<open>return\<close> when
  \<^verbatim>\<open>alloc_rar\<close> fails with an outcome other than \<^verbatim>\<open>RB_COLLISION\<close>: the comment there says that
  the next RAR is tried, but the loop takes \<^verbatim>\<open>pending_rars.front()\<close> again. With an
  \<^verbatim>\<open>alloc_rar\<close> that answers \<^verbatim>\<open>DCI_COLLISION\<close>, and a pending RAR inside its window, the call
  does not return (\<open>ra_dl_sched_loop_spins\<close>).
\<close>

theorem ra_dl_sched_dci_collision_diverges:
  "ra_dl_sched env_dci cfg_25prb ra_one (fresh_slot 101) = None"
  unfolding ra_dl_sched_def
  by (rule ra_dl_sched_loop_spins[where r = rar3 and rs = "[]"])
     (simp_all add: rar3_def ra_one_def cfg_25prb_def get_tti_tx_dl_def fresh_slot_def env_dci_def
        stub_env_def alloc_rar_dci_collision_def)

subsection \<open>The cadence of SIB1\<close>


lemma for_each_invariant:
  assumes "for_each f is s = Inr s'" and "P s"
    and "\<And>i s s'. i \<in> set is \<Longrightarrow> P s \<Longrightarrow> f i s = Inr s' \<Longrightarrow> P s'"
  shows "P s'"
  using assms
proof (induction "is" arbitrary: s)
  case Nil
  then show ?case by simp
next
  case (Cons i "is")
  from Cons.prems(1) obtain s1 where s1: "f i s = Inr s1" and rest: "for_each f is s1 = Inr s'"
    by (cases "f i s") auto
  have "P s1" using Cons.prems(3)[of i s s1] Cons.prems(2) s1 by simp
  then show ?case
  proof (rule Cons.IH[OF rest])
    fix j t t'
    assume "j \<in> set is" "P t" "f j t = Inr t'"
    then show "P t'" using Cons.prems(3)[of j t t'] by simp
  qed
qed

lemma for_each_Cons_Inr:
  "for_each f (i # is) s = Inr s' \<longleftrightarrow> (\<exists>s1. f i s = Inr s1 \<and> for_each f is s1 = Inr s')"
  by (cases "f i s") auto

text \<open>What \<^verbatim>\<open>update_si_windows\<close> makes of the entry of SIB1.\<close>

lemma update_si_window_other:
  assumes "update_si_window cfg d i bc = Inr bc'" and "0 < i"
  shows "pending_sibs bc' ! 0 = pending_sibs bc ! 0 \<and> length (pending_sibs bc') = length (pending_sibs bc) \<and>
         current_sfn bc' = current_sfn bc \<and> current_sf_idx bc' = current_sf_idx bc \<and>
         bc_aggr_level bc' = bc_aggr_level bc \<and> current_tti bc' = current_tti bc"
  using assms
  by (auto simp: update_si_window_def Let_def split: if_splits)

lemma update_si_window_sib1:
  assumes "update_si_window cfg d 0 bc = Inr bc'" and "0 < len (sibs cfg ! 0)"
  shows "pending_sibs bc' ! 0 =
           (if is_in_window (pending_sibs bc ! 0) then
              (if n_tx (pending_sibs bc ! 0) = 4 then (pending_sibs bc ! 0)\<lparr>n_tx := 0\<rparr> else pending_sibs bc ! 0)
            else if current_sfn bc mod period_rf (sibs cfg ! 0) = 0 \<and> current_sf_idx bc = 5 then
              \<lparr>is_in_window = True, window_start = d, n_tx = 0\<rparr>
            else pending_sibs bc ! 0) \<and>
         length (pending_sibs bc') = length (pending_sibs bc) \<and>
         current_sfn bc' = current_sfn bc \<and> current_sf_idx bc' = current_sf_idx bc \<and>
         bc_aggr_level bc' = bc_aggr_level bc \<and> current_tti bc' = current_tti bc"
  using assms
  by (auto simp: update_si_window_def Let_def split: if_splits)

lemma update_si_windows_sib1:
  assumes run: "update_si_windows E cfg s bc = Inr bc'" and ne: "pending_sibs bc \<noteq> []"
    and len: "0 < len (sibs cfg ! 0)"
  shows "pending_sibs bc' ! 0 =
           (if is_in_window (pending_sibs bc ! 0) then
              (if n_tx (pending_sibs bc ! 0) = 4 then (pending_sibs bc ! 0)\<lparr>n_tx := 0\<rparr> else pending_sibs bc ! 0)
            else if current_sfn bc mod period_rf (sibs cfg ! 0) = 0 \<and> current_sf_idx bc = 5 then
              \<lparr>is_in_window = True, window_start = get_tti_tx_dl E s, n_tx = 0\<rparr>
            else pending_sibs bc ! 0) \<and>
         length (pending_sibs bc') = length (pending_sibs bc) \<and>
         current_sfn bc' = current_sfn bc \<and> current_sf_idx bc' = current_sf_idx bc \<and>
         bc_aggr_level bc' = bc_aggr_level bc \<and> current_tti bc' = current_tti bc"
proof -
  let ?d = "get_tti_tx_dl E s"
  have upt: "[0..<length (pending_sibs bc)] = 0 # [1..<length (pending_sibs bc)]"
    using ne by (simp add: upt_conv_Cons)
  from run obtain bc1 where first: "update_si_window cfg ?d 0 bc = Inr bc1"
    and rest: "for_each (update_si_window cfg ?d) [1..<length (pending_sibs bc)] bc1 = Inr bc'"
    unfolding update_si_windows_def upt for_each_Cons_Inr by auto
  let ?P = "\<lambda>b. pending_sibs b ! 0 = pending_sibs bc1 ! 0 \<and> length (pending_sibs b) = length (pending_sibs bc1) \<and>
         current_sfn b = current_sfn bc1 \<and> current_sf_idx b = current_sf_idx bc1 \<and>
         bc_aggr_level b = bc_aggr_level bc1 \<and> current_tti b = current_tti bc1"
  have "?P bc'"
  proof (rule for_each_invariant[OF rest, where P = ?P])
    show "?P bc1" by simp
  next
    fix i b b'
    assume "i \<in> set [1..<length (pending_sibs bc)]" "?P b" "update_si_window cfg ?d i b = Inr b'"
    then show "?P b'" using update_si_window_other[of cfg ?d i b b'] by simp
  qed
  with update_si_window_sib1[OF first len] show ?thesis by simp
qed


lemma dl_frame_refl: "dl_frame s s"
  by (simp add: dl_frame_def)

lemma dl_frame_trans: "dl_frame s s1 \<Longrightarrow> dl_frame s1 s2 \<Longrightarrow> dl_frame s s2"
  by (simp add: dl_frame_def)

lemma sf_alloc_bc_calls: "calls (snd (sf_alloc_bc E a i n s)) = calls s @ [Alloc_bc a i n]"
  by (simp add: sf_alloc_bc_def split: prod.splits)

lemma sf_alloc_bc_frame: "dl_frame s (snd (sf_alloc_bc E a i n s))"
  by (simp add: sf_alloc_bc_def dl_frame_def split: prod.splits)

lemma sf_alloc_paging_calls: "calls (snd (sf_alloc_paging E a n s)) = calls s @ [Alloc_paging a n]"
  by (simp add: sf_alloc_paging_def split: prod.splits)

lemma sf_alloc_paging_frame: "dl_frame s (snd (sf_alloc_paging E a n s))"
  by (simp add: sf_alloc_paging_def dl_frame_def split: prod.splits)

lemma sf_alloc_rar_dl_frame: "dl_frame s (snd (sf_alloc_rar E a r s))"
  by (simp add: sf_alloc_rar_def dl_frame_def split: prod.splits)

lemma sf_alloc_bc_tti: "get_tti_tx_dl E (snd (sf_alloc_bc E a i n s)) = get_tti_tx_dl E s"
  by (simp add: sf_alloc_bc_def get_tti_tx_dl_def split: prod.splits)

lemma alloc_sib_other:
  assumes "alloc_sib E cfg i (bc, s) = Inr (bc', s')" and "0 < i"
  shows "pending_sibs bc' ! 0 = pending_sibs bc ! 0 \<and> length (pending_sibs bc') = length (pending_sibs bc) \<and>
         current_sfn bc' = current_sfn bc \<and> current_sf_idx bc' = current_sf_idx bc \<and>
         bc_aggr_level bc' = bc_aggr_level bc \<and> current_tti bc' = current_tti bc \<and>
         filter is_sib1_alloc (calls s') = filter is_sib1_alloc (calls s) \<and> dl_frame s s'"
  using assms
  unfolding alloc_sib_def Let_def case_prod_beta
  by (auto simp: dl_frame_refl sf_alloc_bc_calls sf_alloc_bc_frame split: if_splits)

lemma alloc_sib_sib1:
  assumes "alloc_sib E cfg 0 (bc, s) = Inr (bc', s')" and "0 < len (sibs cfg ! 0)"
  shows "pending_sibs bc' ! 0 =
           (if is_in_window (pending_sibs bc ! 0) \<and> n_tx (pending_sibs bc ! 0) < 4 \<and>
               current_sfn bc mod 2 = 0 \<and> current_sf_idx bc = 5
            then (pending_sibs bc ! 0)\<lparr>n_tx := n_tx (pending_sibs bc ! 0) + 1\<rparr>
            else pending_sibs bc ! 0) \<and>
         filter is_sib1_alloc (calls s') =
           filter is_sib1_alloc (calls s) @
           (if is_in_window (pending_sibs bc ! 0) \<and> n_tx (pending_sibs bc ! 0) < 4 \<and>
               current_sfn bc mod 2 = 0 \<and> current_sf_idx bc = 5
            then [Alloc_bc (bc_aggr_level bc) 0 (n_tx (pending_sibs bc ! 0))] else []) \<and>
         length (pending_sibs bc') = length (pending_sibs bc) \<and>
         current_sfn bc' = current_sfn bc \<and> current_sf_idx bc' = current_sf_idx bc \<and>
         bc_aggr_level bc' = bc_aggr_level bc \<and> current_tti bc' = current_tti bc \<and> dl_frame s s'"
  using assms
  unfolding alloc_sib_def Let_def case_prod_beta
  by (auto simp: dl_frame_refl sf_alloc_bc_calls sf_alloc_bc_frame split: if_splits)

lemma alloc_sibs_sib1:
  assumes run: "alloc_sibs E cfg (bc, s) = Inr (bc', s')" and ne: "pending_sibs bc \<noteq> []"
    and len: "0 < len (sibs cfg ! 0)"
  shows "pending_sibs bc' ! 0 =
           (if is_in_window (pending_sibs bc ! 0) \<and> n_tx (pending_sibs bc ! 0) < 4 \<and>
               current_sfn bc mod 2 = 0 \<and> current_sf_idx bc = 5
            then (pending_sibs bc ! 0)\<lparr>n_tx := n_tx (pending_sibs bc ! 0) + 1\<rparr>
            else pending_sibs bc ! 0) \<and>
         filter is_sib1_alloc (calls s') =
           filter is_sib1_alloc (calls s) @
           (if is_in_window (pending_sibs bc ! 0) \<and> n_tx (pending_sibs bc ! 0) < 4 \<and>
               current_sfn bc mod 2 = 0 \<and> current_sf_idx bc = 5
            then [Alloc_bc (bc_aggr_level bc) 0 (n_tx (pending_sibs bc ! 0))] else []) \<and>
         length (pending_sibs bc') = length (pending_sibs bc) \<and>
         current_tti bc' = current_tti bc \<and> bc_aggr_level bc' = bc_aggr_level bc \<and> dl_frame s s'"
proof -
  have upt: "[0..<length (pending_sibs bc)] = 0 # [1..<length (pending_sibs bc)]"
    using ne by (simp add: upt_conv_Cons)
  from run obtain st1 where first: "alloc_sib E cfg 0 (bc, s) = Inr st1"
    and rest: "for_each (alloc_sib E cfg) [1..<length (pending_sibs bc)] st1 = Inr (bc', s')"
    unfolding alloc_sibs_def fst_conv upt for_each_Cons_Inr by auto
  obtain bc1 s1 where st1: "st1 = (bc1, s1)" by (cases st1)
  let ?P = "\<lambda>st. pending_sibs (fst st) ! 0 = pending_sibs bc1 ! 0 \<and>
         length (pending_sibs (fst st)) = length (pending_sibs bc1) \<and>
         current_sfn (fst st) = current_sfn bc1 \<and> current_sf_idx (fst st) = current_sf_idx bc1 \<and>
         bc_aggr_level (fst st) = bc_aggr_level bc1 \<and> current_tti (fst st) = current_tti bc1 \<and>
         filter is_sib1_alloc (calls (snd st)) = filter is_sib1_alloc (calls s1) \<and> dl_frame s1 (snd st)"
  have "?P (bc', s')"
  proof (rule for_each_invariant[OF rest, where P = ?P])
    show "?P st1" by (simp add: st1 dl_frame_refl)
  next
    fix i st st'
    assume "i \<in> set [1..<length (pending_sibs bc)]" "?P st" "alloc_sib E cfg i st = Inr st'"
    then show "?P st'"
      using alloc_sib_other[of E cfg i "fst st" "snd st" "fst st'" "snd st'"]
      by (auto intro: dl_frame_trans)
  qed
  with alloc_sib_sib1[OF first[unfolded st1] len] show ?thesis
    by (auto intro: dl_frame_trans)
qed

lemma bc_alloc_paging_frame:
  "dl_frame s (bc_alloc_paging E bc s) \<and>
   filter is_sib1_alloc (calls (bc_alloc_paging E bc s)) = filter is_sib1_alloc (calls s)"
  by (auto simp: bc_alloc_paging_def dl_frame_refl sf_alloc_paging_frame sf_alloc_paging_calls
        split: option.splits prod.splits)


lemma bc_dl_sched_sib1:
  assumes run: "bc_dl_sched E cfg bc s = Inr (bc', s')" and ne: "pending_sibs bc \<noteq> []"
    and len: "0 < len (sibs cfg ! 0)"
  defines "p \<equiv> pending_sibs bc ! 0"
  defines "q \<equiv> (if is_in_window p then (if n_tx p = 4 then p\<lparr>n_tx := 0\<rparr> else p)
                 else if get_sfn E s mod period_rf (sibs cfg ! 0) = 0 \<and> get_sf_idx E s = 5 then
                   \<lparr>is_in_window = True, window_start = get_tti_tx_dl E s, n_tx = 0\<rparr>
                 else p)"
  defines "fire \<equiv> is_in_window q \<and> n_tx q < 4 \<and> get_sfn E s mod 2 = 0 \<and> get_sf_idx E s = 5"
  shows "pending_sibs bc' ! 0 = (if fire then q\<lparr>n_tx := n_tx q + 1\<rparr> else q) \<and>
         filter is_sib1_alloc (calls s') =
           filter is_sib1_alloc (calls s) @ (if fire then [Alloc_bc 2 0 (n_tx q)] else []) \<and>
         length (pending_sibs bc') = length (pending_sibs bc) \<and> dl_frame s s'"
proof -
  let ?bc1 = "bc\<lparr>current_sf_idx := get_sf_idx E s, current_sfn := get_sfn E s,
                  current_tti := get_tti_tx_dl E s, bc_aggr_level := 2\<rparr>"
  from run obtain bc2 st3 where u: "update_si_windows E cfg s ?bc1 = Inr bc2"
    and a: "alloc_sibs E cfg (bc2, s) = Inr st3"
    and r: "bc' = fst st3" "s' = bc_alloc_paging E (fst st3) (snd st3)"
    unfolding bc_dl_sched_def Let_def
    by (auto split: sum.splits)
  obtain bc3 s3 where st3: "st3 = (bc3, s3)" by (cases st3)
  have ne1: "pending_sibs ?bc1 \<noteq> []" using ne by simp
  note U = update_si_windows_sib1[OF u ne1 len]
  from U ne have ne2: "pending_sibs bc2 \<noteq> []" by auto
  note A = alloc_sibs_sib1[OF a[unfolded st3] ne2 len]
  from U have q2: "pending_sibs bc2 ! 0 = q" "current_sfn bc2 = get_sfn E s" "current_sf_idx bc2 = get_sf_idx E s"
    "bc_aggr_level bc2 = 2" "length (pending_sibs bc2) = length (pending_sibs bc)"
    by (simp_all add: q_def p_def)
  from A q2 r st3 bc_alloc_paging_frame[of s3 E bc3] show ?thesis
    by (auto simp: fire_def intro: dl_frame_trans)
qed

lemma bc_dl_sched_run_count:
  fixes slot :: "nat \<Rightarrow> 'g sf_sched"
  assumes slot: "\<And>t. tti_rx (slot t) = t \<and> calls (slot t) = []"
    and tx: "TX_DELAY E \<le> 5"
    and len: "0 < len (sibs cfg ! 0)"
    and run: "bc_dl_sched_run E cfg bc (map slot [a..<a + n]) = Inr (bc', out)"
    and ne: "pending_sibs bc \<noteq> []"
    and inv: "is_in_window (pending_sibs bc ! 0) \<and> n_tx (pending_sibs bc ! 0) \<le> 4 \<or>
              \<not> is_in_window (pending_sibs bc ! 0) \<and> a + TX_DELAY E \<le> 5"
  shows "map (\<lambda>s'. length (filter is_sib1_alloc (calls s'))) out =
         map (\<lambda>t. if (((t + TX_DELAY E) mod 10240) div 10) mod 2 = 0 \<and> ((t + TX_DELAY E) mod 10240) mod 10 = 5
                   then 1 else 0) [a..<a + n]"
  using run ne inv
proof (induction n arbitrary: a bc out)
  case 0
  then show ?case by auto
next
  case (Suc n)
  have upt: "[a..<a + Suc n] = a # [Suc a..<Suc a + n]" by (simp add: upt_conv_Cons)
  from Suc.prems(1) obtain bc1 s1 out1 where
    first: "bc_dl_sched E cfg bc (slot a) = Inr (bc1, s1)"
    and rest: "bc_dl_sched_run E cfg bc1 (map slot [Suc a..<Suc a + n]) = Inr (bc', out1)"
    and out: "out = s1 # out1"
    unfolding upt by (auto split: sum.splits)
  note S = bc_dl_sched_sib1[OF first Suc.prems(2) len]
  have d: "get_tti_tx_dl E (slot a) = (a + TX_DELAY E) mod 10240"
    "get_sfn E (slot a) = ((a + TX_DELAY E) mod 10240) div 10"
    "get_sf_idx E (slot a) = ((a + TX_DELAY E) mod 10240) mod 10"
    by (simp_all add: get_tti_tx_dl_def get_sfn_def get_sf_idx_def slot)
  have ne1: "pending_sibs bc1 \<noteq> []" using S Suc.prems(2) by auto
  from Suc.prems(3) show ?case
  proof
    assume st: "is_in_window (pending_sibs bc ! 0) \<and> n_tx (pending_sibs bc ! 0) \<le> 4"
    with S have inv1: "is_in_window (pending_sibs bc1 ! 0) \<and> n_tx (pending_sibs bc1 ! 0) \<le> 4"
      by (auto split: if_splits)
    from st S have cnt: "length (filter is_sib1_alloc (calls s1)) =
        (if (((a + TX_DELAY E) mod 10240) div 10) mod 2 = 0 \<and> ((a + TX_DELAY E) mod 10240) mod 10 = 5 then 1 else 0)"
      by (auto simp: d slot split: if_splits)
    from Suc.IH[OF rest ne1] inv1 cnt show ?thesis unfolding upt out by simp
  next
    assume fr: "\<not> is_in_window (pending_sibs bc ! 0) \<and> a + TX_DELAY E \<le> 5"
    then have small: "(a + TX_DELAY E) mod 10240 = a + TX_DELAY E" by simp
    show ?thesis
    proof (cases "a + TX_DELAY E = 5")
      case True
      with S fr have inv1: "is_in_window (pending_sibs bc1 ! 0) \<and> n_tx (pending_sibs bc1 ! 0) \<le> 4"
        by (auto simp: d split: if_splits)
      from True S fr have cnt: "length (filter is_sib1_alloc (calls s1)) = 1"
        by (auto simp: d slot split: if_splits)
      from Suc.IH[OF rest ne1] inv1 cnt True show ?thesis unfolding upt out by (simp add: small)
    next
      case False
      with fr have lt: "a + TX_DELAY E < 5" by simp
      with S fr have inv1: "\<not> is_in_window (pending_sibs bc1 ! 0) \<and> Suc a + TX_DELAY E \<le> 5"
        by (auto simp: d split: if_splits)
      from lt S fr have cnt: "length (filter is_sib1_alloc (calls s1)) = 0"
        by (auto simp: d slot split: if_splits)
      from Suc.IH[OF rest ne1] inv1 cnt lt show ?thesis unfolding upt out by (simp add: small)
    qed
  qed
qed


lemma bc_dl_sched_single_sib_returns:
  assumes "length (sibs cfg) = 1" and "length (pending_sibs bc) = 1" and "0 < period_rf (sibs cfg ! 0)"
  shows "\<exists>bc' s'. bc_dl_sched E cfg bc s = Inr (bc', s') \<and> length (pending_sibs bc') = 1"
  using assms
  unfolding bc_dl_sched_def update_si_windows_def alloc_sibs_def Let_def
  by (auto simp: update_si_window_def alloc_sib_def Let_def case_prod_beta split: sum.splits)

lemma bc_dl_sched_run_single_sib_returns:
  assumes "length (sibs cfg) = 1" and "length (pending_sibs bc) = 1" and "0 < period_rf (sibs cfg ! 0)"
  shows "\<exists>r. bc_dl_sched_run E cfg bc ss = Inr r"
  using assms(2)
proof (induction ss arbitrary: bc)
  case Nil
  then show ?case by simp
next
  case (Cons s ss)
  from bc_dl_sched_single_sib_returns[OF assms(1) Cons.prems assms(3), of E s]
  obtain bc' s' where 1: "bc_dl_sched E cfg bc s = Inr (bc', s')" "length (pending_sibs bc') = 1" by auto
  from Cons.IH[OF 1(2)] obtain r where "bc_dl_sched_run E cfg bc' ss = Inr r" by auto
  with 1 show ?case by simp
qed

text \<open>
  Claim C5, as amended. The claim says that, with \<^verbatim>\<open>sibs[0].len > 0\<close>, \<^verbatim>\<open>bc_sched\<close> allocates SIB1
  exactly on the TTIs with an even SFN and \<^verbatim>\<open>sf_idx == 5\<close>. The entry of SIB1 starts outside
  its window, and \<^verbatim>\<open>update_si_windows\<close> opens the window only at a TTI with
  \<^verbatim>\<open>SFN % sibs[0].period_rf == 0\<close> and \<^verbatim>\<open>sf_idx == 5\<close>; until then nothing is allocated. What
  holds for a call of \<^verbatim>\<open>bc_sched::dl_sched\<close> that returns:
  \<^item> SIB1 is never allocated on a TTI other than one with an even SFN and \<^verbatim>\<open>sf_idx == 5\<close>;
  \<^item> once the window is open (and \<^verbatim>\<open>n_tx\<close> is at most 4), SIB1 is allocated on every such
    TTI, by one \<^verbatim>\<open>alloc_bc\<close> at aggregation level 2 with the current \<^verbatim>\<open>n_tx\<close>; \<^verbatim>\<open>n_tx\<close> is set
    back from 4 to 0 before, and goes up by one with the allocation;
  \<^item> outside the window, the window opens exactly when \<^verbatim>\<open>SFN % period_rf == 0\<close> and
    \<^verbatim>\<open>sf_idx == 5\<close>, and SIB1 is allocated in that TTI when the SFN is even;
  \<^item> driven on every TTI from \<^verbatim>\<open>tti_rx = 0\<close>, from a state outside the window and with a
    transmission delay of at most 5, the number of SIB1 allocations of each TTI is 1
    when the SFN is even and \<^verbatim>\<open>sf_idx == 5\<close>, and 0 otherwise.
\<close>

theorem sib1_cadence:
  assumes len: "0 < len (sibs cfg ! 0)" and ne: "pending_sibs bc \<noteq> []"
  shows "(\<forall>bc' s'. bc_dl_sched E cfg bc s = Inr (bc', s') \<longrightarrow>
            (\<not> (get_sfn E s mod 2 = 0 \<and> get_sf_idx E s = 5) \<longrightarrow>
               filter is_sib1_alloc (calls s') = filter is_sib1_alloc (calls s)) \<and>
            (is_in_window (pending_sibs bc ! 0) \<and> n_tx (pending_sibs bc ! 0) \<le> 4 \<longrightarrow>
               filter is_sib1_alloc (calls s') =
                 filter is_sib1_alloc (calls s) @
                 (if get_sfn E s mod 2 = 0 \<and> get_sf_idx E s = 5
                  then [Alloc_bc 2 0 (if n_tx (pending_sibs bc ! 0) = 4 then 0 else n_tx (pending_sibs bc ! 0))]
                  else []) \<and>
               is_in_window (pending_sibs bc' ! 0) \<and>
               n_tx (pending_sibs bc' ! 0) =
                 (if n_tx (pending_sibs bc ! 0) = 4 then 0 else n_tx (pending_sibs bc ! 0)) +
                 (if get_sfn E s mod 2 = 0 \<and> get_sf_idx E s = 5 then 1 else 0)) \<and>
            (\<not> is_in_window (pending_sibs bc ! 0) \<longrightarrow>
               (is_in_window (pending_sibs bc' ! 0) \<longleftrightarrow>
                  get_sfn E s mod period_rf (sibs cfg ! 0) = 0 \<and> get_sf_idx E s = 5) \<and>
               filter is_sib1_alloc (calls s') =
                 filter is_sib1_alloc (calls s) @
                 (if get_sfn E s mod period_rf (sibs cfg ! 0) = 0 \<and> get_sfn E s mod 2 = 0 \<and> get_sf_idx E s = 5
                  then [Alloc_bc 2 0 0] else []))) \<and>
         (\<forall>slot N bc' out.
            (\<forall>t. tti_rx (slot t) = t \<and> calls (slot t) = []) \<and> TX_DELAY E \<le> 5 \<and>
            \<not> is_in_window (pending_sibs bc ! 0) \<and>
            bc_dl_sched_run E cfg bc (map slot [0..<N]) = Inr (bc', out) \<longrightarrow>
            map (\<lambda>s'. length (filter is_sib1_alloc (calls s'))) out =
            map (\<lambda>t. if (((t + TX_DELAY E) mod 10240) div 10) mod 2 = 0 \<and>
                         ((t + TX_DELAY E) mod 10240) mod 10 = 5 then 1 else 0) [0..<N])"
proof (intro conjI allI impI)
  fix bc' s'
  assume run: "bc_dl_sched E cfg bc s = Inr (bc', s')"
  note S = bc_dl_sched_sib1[OF run ne len]
  {
    assume "\<not> (get_sfn E s mod 2 = 0 \<and> get_sf_idx E s = 5)"
    with S show "filter is_sib1_alloc (calls s') = filter is_sib1_alloc (calls s)" by auto
  }
  {
    assume st: "is_in_window (pending_sibs bc ! 0) \<and> n_tx (pending_sibs bc ! 0) \<le> 4"
    with S show "filter is_sib1_alloc (calls s') =
                 filter is_sib1_alloc (calls s) @
                 (if get_sfn E s mod 2 = 0 \<and> get_sf_idx E s = 5
                  then [Alloc_bc 2 0 (if n_tx (pending_sibs bc ! 0) = 4 then 0 else n_tx (pending_sibs bc ! 0))]
                  else [])"
      by (auto split: if_splits)
    from st S show "is_in_window (pending_sibs bc' ! 0)" by (auto split: if_splits)
    from st S show "n_tx (pending_sibs bc' ! 0) =
                 (if n_tx (pending_sibs bc ! 0) = 4 then 0 else n_tx (pending_sibs bc ! 0)) +
                 (if get_sfn E s mod 2 = 0 \<and> get_sf_idx E s = 5 then 1 else 0)"
      by (auto split: if_splits)
  }
  {
    assume fr: "\<not> is_in_window (pending_sibs bc ! 0)"
    with S show "is_in_window (pending_sibs bc' ! 0) \<longleftrightarrow>
                  get_sfn E s mod period_rf (sibs cfg ! 0) = 0 \<and> get_sf_idx E s = 5"
      by (auto split: if_splits)
    from fr S show "filter is_sib1_alloc (calls s') =
                 filter is_sib1_alloc (calls s) @
                 (if get_sfn E s mod period_rf (sibs cfg ! 0) = 0 \<and> get_sfn E s mod 2 = 0 \<and> get_sf_idx E s = 5
                  then [Alloc_bc 2 0 0] else [])"
      by (auto split: if_splits)
  }
next
  fix slot :: "nat \<Rightarrow> 'a sf_sched" and N bc' out
  assume h: "(\<forall>t. tti_rx (slot t) = t \<and> calls (slot t) = []) \<and> TX_DELAY E \<le> 5 \<and>
            \<not> is_in_window (pending_sibs bc ! 0) \<and>
            bc_dl_sched_run E cfg bc (map slot [0..<N]) = Inr (bc', out)"
  then have run: "bc_dl_sched_run E cfg bc (map slot [0..<0 + N]) = Inr (bc', out)" by simp
  have "map (\<lambda>s'. length (filter is_sib1_alloc (calls s'))) out =
        map (\<lambda>t. if (((t + TX_DELAY E) mod 10240) div 10) mod 2 = 0 \<and>
                     ((t + TX_DELAY E) mod 10240) mod 10 = 5 then 1 else 0) [0..<0 + N]"
    by (rule bc_dl_sched_run_count[OF _ _ len run ne]) (use h in auto)
  then show "map (\<lambda>s'. length (filter is_sib1_alloc (calls s'))) out =
            map (\<lambda>t. if (((t + TX_DELAY E) mod 10240) div 10) mod 2 = 0 \<and>
                         ((t + TX_DELAY E) mod 10240) mod 10 = 5 then 1 else 0) [0..<N]"
    by simp
qed


text \<open>
  Claim C5 as stated fails: in the state after \<^verbatim>\<open>reset\<close>, with \<^verbatim>\<open>sibs[0]\<close> of length 18 and
  period 8, the TTI with \<^verbatim>\<open>tti_tx_dl = 25\<close> has SFN 2 and \<^verbatim>\<open>sf_idx\<close> 5, and \<^verbatim>\<open>dl_sched\<close> makes no
  call on the slot.
\<close>

theorem sib1_cadence_counterexample:
  "0 < len (sibs cfg_25prb ! 0) \<and>
   get_sfn env_dci (fresh_slot 21) mod 2 = 0 \<and> get_sf_idx env_dci (fresh_slot 21) = 5 \<and>
   isl (bc_dl_sched env_dci cfg_25prb (bc_sched_new env_dci) (fresh_slot 21)) = False \<and>
   calls (snd (projr (bc_dl_sched env_dci cfg_25prb (bc_sched_new env_dci) (fresh_slot 21)))) = []"
  by (simp add: bc_dl_sched_def update_si_windows_def alloc_sibs_def update_si_window_def alloc_sib_def
        bc_alloc_paging_def bc_sched_new_def zero_sib_def get_sfn_def get_sf_idx_def get_tti_tx_dl_def
        env_dci_def stub_env_def cfg_25prb_def fresh_slot_def Let_def)

theorem sib1_cadence_witness:
  "0 < len (sibs cfg_25prb ! 0) \<and> pending_sibs (bc_sched_new env_dci) \<noteq> [] \<and>
   TX_DELAY env_dci \<le> 5 \<and> \<not> is_in_window (pending_sibs (bc_sched_new env_dci) ! 0) \<and>
   isl (bc_dl_sched_run env_dci cfg_25prb (bc_sched_new env_dci) (map fresh_slot [0..<161])) = False \<and>
   map (\<lambda>s'. length (filter is_sib1_alloc (calls s')))
     (snd (projr (bc_dl_sched_run env_dci cfg_25prb (bc_sched_new env_dci) (map fresh_slot [0..<161])))) =
   map (\<lambda>t. if (((t + TX_DELAY env_dci) mod 10240) div 10) mod 2 = 0 \<and>
                ((t + TX_DELAY env_dci) mod 10240) mod 10 = 5 then 1 else 0) [0..<161]"
proof -
  have len: "0 < len (sibs cfg_25prb ! 0)" by (simp add: cfg_25prb_def)
  have ne: "pending_sibs (bc_sched_new env_dci) \<noteq> []"
    by (simp add: bc_sched_new_def env_dci_def stub_env_def)
  have tx: "TX_DELAY env_dci \<le> 5" by (simp add: env_dci_def stub_env_def)
  have fr: "\<not> is_in_window (pending_sibs (bc_sched_new env_dci) ! 0)"
    by (simp add: bc_sched_new_def env_dci_def stub_env_def zero_sib_def)
  have sl: "\<forall>t. tti_rx (fresh_slot t) = t \<and> calls (fresh_slot t) = []" by (simp add: fresh_slot_def)
  obtain r where r: "bc_dl_sched_run env_dci cfg_25prb (bc_sched_new env_dci) (map fresh_slot [0..<161]) = Inr r"
    using bc_dl_sched_run_single_sib_returns[of cfg_25prb "bc_sched_new env_dci" env_dci "map fresh_slot [0..<161]"]
    by (auto simp: cfg_25prb_def bc_sched_new_def env_dci_def stub_env_def)
  then have r': "bc_dl_sched_run env_dci cfg_25prb (bc_sched_new env_dci) (map fresh_slot [0..<161]) = Inr (fst r, snd r)"
    by simp
  from sib1_cadence[OF len ne, of env_dci "fresh_slot 0", THEN conjunct2, rule_format,
         of fresh_slot 161 "fst r" "snd r"] sl tx fr r'
  have "map (\<lambda>s'. length (filter is_sib1_alloc (calls s'))) (snd r) =
        map (\<lambda>t. if (((t + TX_DELAY env_dci) mod 10240) div 10) mod 2 = 0 \<and>
                ((t + TX_DELAY env_dci) mod 10240) mod 10 = 5 then 1 else 0) [0..<161]"
    by blast
  with len ne tx fr r show ?thesis by simp
qed

subsection \<open>The uplink mask\<close>


lemma sf_alloc_ul_frame:
  "tti_rx (snd (sf_alloc_ul E rnti u al ty mcs s)) = tti_rx s \<and>
   ul_phich (snd (sf_alloc_ul E rnti u al ty mcs s)) = ul_phich s \<and>
   filter is_alloc_users (calls (snd (sf_alloc_ul E rnti u al ty mcs s))) = filter is_alloc_users (calls s)"
  by (simp add: sf_alloc_ul_def case_prod_beta)

lemma sf_alloc_ul_mask:
  "ul_mask (snd (sf_alloc_ul E rnti u al ty mcs s)) = fst (snd (alloc_ul E rnti u al ty mcs (ul_mask s, grid s)))"
  by (simp add: sf_alloc_ul_def case_prod_beta)

lemma ra_ul_sched_loop_frame:
  "tti_rx (snd (ra_ul_sched_loop E db ms (ra, s))) = tti_rx s \<and>
   ul_phich (snd (ra_ul_sched_loop E db ms (ra, s))) = ul_phich s \<and>
   filter is_alloc_users (calls (snd (ra_ul_sched_loop E db ms (ra, s)))) = filter is_alloc_users (calls s)"
proof (induction ms arbitrary: ra s)
  case Nil
  then show ?case by simp
next
  case (Cons m ms)
  show ?case
  proof (cases "map_of db (msg3_rnti m)")
    case None
    then show ?thesis using Cons.IH by simp
  next
    case (Some u)
    then show ?thesis
      using Cons.IH sf_alloc_ul_frame[of E "msg3_rnti m" u "(msg3_n_prb m, msg3_L m)" MSG3 "msg3_mcs m" s]
      by (simp add: case_prod_beta)
  qed
qed

lemma ra_ul_sched_loop_mask:
  assumes mono: "\<forall>rnti u al ty mcs m g. m \<subseteq> fst (snd (alloc_ul E rnti u al ty mcs (m, g)))"
  shows "ul_mask s \<subseteq> ul_mask (snd (ra_ul_sched_loop E db ms (ra, s)))"
proof (induction ms arbitrary: ra s)
  case Nil
  then show ?case by simp
next
  case (Cons m ms)
  show ?case
  proof (cases "map_of db (msg3_rnti m)")
    case None
    then show ?thesis using Cons.IH[of "s\<lparr>pending_msg3 := ms\<rparr>"] by simp
  next
    case (Some u)
    let ?s1 = "snd (sf_alloc_ul E (msg3_rnti m) u (msg3_n_prb m, msg3_L m) MSG3 (msg3_mcs m) s)"
    have 1: "ul_mask s \<subseteq> ul_mask ?s1"
      using mono by (simp add: sf_alloc_ul_mask)
    have 2: "ul_mask (?s1\<lparr>pending_msg3 := ms\<rparr>) \<subseteq> ul_mask (snd (ra_ul_sched_loop E db ms (ra', ?s1\<lparr>pending_msg3 := ms\<rparr>)))" for ra'
      by (rule Cons.IH)
    from 1 2 Some show ?thesis
      by (auto simp: case_prod_beta)
  qed
qed

lemma ul_reserve_prach_frame:
  "tti_rx (snd (ul_reserve_prach E c s)) = tti_rx s \<and> ul_phich (snd (ul_reserve_prach E c s)) = ul_phich s \<and>
   calls (snd (ul_reserve_prach E c s)) = calls s \<and>
   fst (ul_reserve_prach E c s) =
     c\<lparr>log_h := log_h c @
        (if srslte_prach_tti_opportunity_config_fdd E (prach_config (cc_cfg c)) (get_tti_tx_ul E s) (- 1)
         then [Prach_rbs_allocated] else [])\<rparr> \<and>
   ul_mask (snd (ul_reserve_prach E c s)) =
     (if srslte_prach_tti_opportunity_config_fdd E (prach_config (cc_cfg c)) (get_tti_tx_ul E s) (- 1)
      then prach_mask c else ul_mask s)"
  by (simp add: ul_reserve_prach_def)


lemma u32_sub_le:
  assumes "b \<le> a" and "a < 4294967296"
  shows "u32_sub a b = a - b"
proof -
  have b: "b < 4294967296" using assms by simp
  have "u32_sub a b = (a + 4294967296 - b) mod 4294967296"
    using assms b by (simp add: u32_sub_def)
  also have "a + 4294967296 - b = (a - b) + 4294967296" using assms(1) by arith
  also have "((a - b) + 4294967296) mod 4294967296 = (a - b) mod 4294967296" by (rule mod_add_self2)
  also have "\<dots> = a - b" using assms(2) by (intro mod_less) arith
  finally show ?thesis .
qed

lemma carrier_cfg_masks:
  assumes "0 < nrb_pucch cfg" and "nat (nrb_pucch cfg) \<le> nof_prb cfg" and "nof_prb cfg < 4294967296"
  shows "pucch_mask (carrier_cfg E cfg cfi c) =
           {0..<nat (nrb_pucch cfg)} \<union> {nof_prb cfg - nat (nrb_pucch cfg)..<nof_prb cfg} \<and>
         prach_mask (carrier_cfg E cfg cfi c) = {prach_freq_offset cfg..<prach_freq_offset cfg + 6}"
  using assms(1) by (auto simp: carrier_cfg_def mask_fill_def u32_sub_le[OF assms(2,3)])

lemma alloc_ul_users_unfold:
  assumes run: "alloc_ul_users E c s = Inr (c', s')"
  defines "s0 \<equiv> s\<lparr>calls := calls s @ [Alloc_ul_users]\<rparr>"
  defines "c1 \<equiv> fst (ul_reserve_prach E c s0)"
  defines "s1 \<equiv> snd (ul_reserve_prach E c s0)"
  shows "\<exists>ra. ra_sched_ptr c = Some ra \<and>
           (let s2 = snd (ra_ul_sched E (ue_db c) ra s1);
                s3 = s2\<lparr>ul_mask := ul_mask s2 \<union> pucch_mask c\<rparr>;
                c2 = c1\<lparr>ra_sched_ptr := Some (fst (ra_ul_sched E (ue_db c) ra s1)),
                        log_h := (if nof_prb (cc_cfg c) \<noteq> 6 \<and> ul_mask s2 \<inter> pucch_mask c \<noteq> {}
                                  then log_h c1 @ [Pucch_collision] else log_h c1)\<rparr>;
                r = ul_metric_sched_users E (ue_db c) (ul_mask s3, grid s3)
            in c' = c2\<lparr>ue_db := fst r\<rparr> \<and>
               s' = s3\<lparr>ul_mask := fst (snd r), grid := snd (snd r), calls := calls s3 @ [Ul_metric_sched_users]\<rparr>)"
proof -
  have c1: "c1 = c\<lparr>log_h := log_h c1\<rparr>"
    unfolding c1_def using ul_reserve_prach_frame[of E c s0] by simp
  then have f: "ra_sched_ptr c1 = ra_sched_ptr c" "ue_db c1 = ue_db c" "cc_cfg c1 = cc_cfg c"
    "pucch_mask c1 = pucch_mask c"
    by (cases c1, simp)+
  from run obtain ra where ra: "ra_sched_ptr c = Some ra"
    unfolding alloc_ul_users_def s0_def[symmetric] case_prod_beta c1_def[symmetric] s1_def[symmetric] Let_def
    by (cases "ra_sched_ptr c") (auto simp: f)
  from run ra have "let s2 = snd (ra_ul_sched E (ue_db c) ra s1);
                s3 = s2\<lparr>ul_mask := ul_mask s2 \<union> pucch_mask c\<rparr>;
                c2 = c1\<lparr>ra_sched_ptr := Some (fst (ra_ul_sched E (ue_db c) ra s1)),
                        log_h := (if nof_prb (cc_cfg c) \<noteq> 6 \<and> ul_mask s2 \<inter> pucch_mask c \<noteq> {}
                                  then log_h c1 @ [Pucch_collision] else log_h c1)\<rparr>;
                r = ul_metric_sched_users E (ue_db c) (ul_mask s3, grid s3)
            in c' = c2\<lparr>ue_db := fst r\<rparr> \<and>
               s' = s3\<lparr>ul_mask := fst (snd r), grid := snd (snd r), calls := calls s3 @ [Ul_metric_sched_users]\<rparr>"
    unfolding alloc_ul_users_def s0_def[symmetric] case_prod_beta c1_def[symmetric] s1_def[symmetric] Let_def
    by (simp add: f)
  with ra show ?thesis by blast
qed

text \<open>
  Claim C6. The primitives that run inside \<^verbatim>\<open>alloc_ul_users\<close> after a mask is written are
  outside this file: \<^verbatim>\<open>alloc_ul\<close> of the slot and the uplink metric. The spec says of both
  that they respect the masks already present, so they are assumed never to clear a bit
  of the uplink mask. Then, after every call to \<^verbatim>\<open>alloc_ul_users\<close> that returns: the uplink
  mask of the slot contains \<^verbatim>\<open>pucch_mask\<close>; when \<^verbatim>\<open>tti_tx_ul\<close> is a PRACH opportunity it also
  contains \<^verbatim>\<open>prach_mask\<close>; and in a cell of more than 6 PRBs, an overlap of the uplink mask
  with \<^verbatim>\<open>pucch_mask\<close> before the \<^verbatim>\<open>|=\<close> is reported, as the last message of the log.
\<close>

theorem ul_mask_reserved:
  assumes mono_alloc: "\<forall>rnti u al ty mcs m g. m \<subseteq> fst (snd (alloc_ul E rnti u al ty mcs (m, g)))"
    and mono_metric: "\<forall>db m g. m \<subseteq> fst (snd (ul_metric_sched_users E db (m, g)))"
    and run: "alloc_ul_users E c s = Inr (c', s')"
  shows "pucch_mask c \<subseteq> ul_mask s' \<and>
         (srslte_prach_tti_opportunity_config_fdd E (prach_config (cc_cfg c)) (get_tti_tx_ul E s) (- 1) \<longrightarrow>
            prach_mask c \<subseteq> ul_mask s') \<and>
         (\<forall>ra. ra_sched_ptr c = Some ra \<and> 6 < nof_prb (cc_cfg c) \<and>
               ul_mask (snd (ul_before_pucch E c ra s)) \<inter> pucch_mask c \<noteq> {} \<longrightarrow>
               log_h c' = log_h c @
                 (if srslte_prach_tti_opportunity_config_fdd E (prach_config (cc_cfg c)) (get_tti_tx_ul E s) (- 1)
                  then [Prach_rbs_allocated] else []) @ [Pucch_collision])"
proof -
  let ?s0 = "s\<lparr>calls := calls s @ [Alloc_ul_users]\<rparr>"
  let ?c1 = "fst (ul_reserve_prach E c ?s0)"
  let ?s1 = "snd (ul_reserve_prach E c ?s0)"
  from alloc_ul_users_unfold[OF run] obtain ra where ra: "ra_sched_ptr c = Some ra"
    and r: "let s2 = snd (ra_ul_sched E (ue_db c) ra ?s1);
                s3 = s2\<lparr>ul_mask := ul_mask s2 \<union> pucch_mask c\<rparr>;
                c2 = ?c1\<lparr>ra_sched_ptr := Some (fst (ra_ul_sched E (ue_db c) ra ?s1)),
                        log_h := (if nof_prb (cc_cfg c) \<noteq> 6 \<and> ul_mask s2 \<inter> pucch_mask c \<noteq> {}
                                  then log_h ?c1 @ [Pucch_collision] else log_h ?c1)\<rparr>;
                r = ul_metric_sched_users E (ue_db c) (ul_mask s3, grid s3)
            in c' = c2\<lparr>ue_db := fst r\<rparr> \<and>
               s' = s3\<lparr>ul_mask := fst (snd r), grid := snd (snd r), calls := calls s3 @ [Ul_metric_sched_users]\<rparr>"
    by auto
  let ?s2 = "snd (ra_ul_sched E (ue_db c) ra ?s1)"
  let ?m3 = "ul_mask ?s2 \<union> pucch_mask c"
  from r have m': "ul_mask s' = fst (snd (ul_metric_sched_users E (ue_db c) (?m3, grid ?s2)))"
    and l': "log_h c' = (if nof_prb (cc_cfg c) \<noteq> 6 \<and> ul_mask ?s2 \<inter> pucch_mask c \<noteq> {}
                         then log_h ?c1 @ [Pucch_collision] else log_h ?c1)"
    by (simp_all add: Let_def)
  have sub3: "?m3 \<subseteq> ul_mask s'" unfolding m' using mono_metric by blast
  have sub2: "ul_mask ?s1 \<subseteq> ul_mask ?s2"
    unfolding ra_ul_sched_def by (rule ra_ul_sched_loop_mask[OF mono_alloc])
  have tul: "get_tti_tx_ul E ?s0 = get_tti_tx_ul E s" by (simp add: get_tti_tx_ul_def)
  note F = ul_reserve_prach_frame[of E c ?s0, unfolded tul]
  have before: "ul_before_pucch E c ra s = ra_ul_sched E (ue_db c) ra ?s1"
    using F by (simp add: ul_before_pucch_def case_prod_beta)
  show ?thesis
  proof (intro conjI impI allI)
    show "pucch_mask c \<subseteq> ul_mask s'" using sub3 by blast
  next
    assume "srslte_prach_tti_opportunity_config_fdd E (prach_config (cc_cfg c)) (get_tti_tx_ul E s) (- 1)"
    with F have "ul_mask ?s1 = prach_mask c" by simp
    with sub2 sub3 show "prach_mask c \<subseteq> ul_mask s'" by blast
  next
    fix ra'
    assume h: "ra_sched_ptr c = Some ra' \<and> 6 < nof_prb (cc_cfg c) \<and>
               ul_mask (snd (ul_before_pucch E c ra' s)) \<inter> pucch_mask c \<noteq> {}"
    with ra have "ra' = ra" by simp
    with h before have "nof_prb (cc_cfg c) \<noteq> 6 \<and> ul_mask ?s2 \<inter> pucch_mask c \<noteq> {}" by simp
    with l' F show "log_h c' = log_h c @
                 (if srslte_prach_tti_opportunity_config_fdd E (prach_config (cc_cfg c)) (get_tti_tx_ul E s) (- 1)
                  then [Prach_rbs_allocated] else []) @ [Pucch_collision]"
      by simp
  qed
qed

subsection \<open>What the steps of a TTI leave unchanged\<close>


lemma carrier_frame_refl: "carrier_frame c c"
  by (simp add: carrier_frame_def)

lemma carrier_frame_trans: "carrier_frame c c1 \<Longrightarrow> carrier_frame c1 c2 \<Longrightarrow> carrier_frame c c2"
  by (simp add: carrier_frame_def)

lemma alloc_ul_users_frame:
  assumes run: "alloc_ul_users E c s = Inr (c', s')"
  shows "tti_rx s' = tti_rx s \<and> ul_phich s' = ul_phich s \<and>
         filter is_alloc_users (calls s') = filter is_alloc_users (calls s) @ [Alloc_ul_users] \<and>
         carrier_frame c c'"
proof -
  let ?s0 = "s\<lparr>calls := calls s @ [Alloc_ul_users]\<rparr>"
  let ?s1 = "snd (ul_reserve_prach E c ?s0)"
  note F = ul_reserve_prach_frame[of E c ?s0]
  from alloc_ul_users_unfold[OF run] obtain ra where
    c': "c' = (fst (ul_reserve_prach E c ?s0))
             \<lparr>ra_sched_ptr := Some (fst (ra_ul_sched E (ue_db c) ra ?s1)),
              log_h := (if nof_prb (cc_cfg c) \<noteq> 6 \<and> ul_mask (snd (ra_ul_sched E (ue_db c) ra ?s1)) \<inter> pucch_mask c \<noteq> {}
                        then log_h (fst (ul_reserve_prach E c ?s0)) @ [Pucch_collision]
                        else log_h (fst (ul_reserve_prach E c ?s0))),
              ue_db := fst (ul_metric_sched_users E (ue_db c)
                        (ul_mask (snd (ra_ul_sched E (ue_db c) ra ?s1)) \<union> pucch_mask c,
                         grid (snd (ra_ul_sched E (ue_db c) ra ?s1))))\<rparr>"
    and s': "tti_rx s' = tti_rx (snd (ra_ul_sched E (ue_db c) ra ?s1))"
      "ul_phich s' = ul_phich (snd (ra_ul_sched E (ue_db c) ra ?s1))"
      "filter is_alloc_users (calls s') = filter is_alloc_users (calls (snd (ra_ul_sched E (ue_db c) ra ?s1)))"
    by (auto simp: Let_def)
  have cf: "carrier_frame c c'"
    unfolding c' using F by (cases c) (simp add: carrier_frame_def)
  from s' ra_ul_sched_loop_frame[of E "ue_db c" "pending_msg3 ?s1" ra ?s1] F cf
  show ?thesis by (simp add: ra_ul_sched_def)
qed

lemma alloc_dl_users_frame:
  assumes run: "alloc_dl_users E c s = Inr (c', s')"
  shows "tti_rx s' = tti_rx s \<and> ul_phich s' = ul_phich s \<and>
         filter is_alloc_users (calls s') = filter is_alloc_users (calls s) @ [Alloc_dl_users] \<and>
         carrier_frame c c'"
  using run unfolding alloc_dl_users_def Let_def case_prod_beta
  by (auto simp: carrier_frame_def split: if_splits)

lemma generate_phich_loop_result:
  "generate_phich_loop E cc t db acc = Inr r \<Longrightarrow>
     fst r = fst acc @
       map (\<lambda>ue. \<lparr>phich_rnti = fst ue,
                  phich = (if get_pending_ack E (snd ue) t (snd (get_cell_index E (snd ue) cc)) then ACK else NACK)\<rparr>)
         (filter (\<lambda>ue. fst (get_cell_index E (snd ue) cc) \<and>
                        has_pending_ack E (snd ue) t (snd (get_cell_index E (snd ue) cc))) db)"
proof (induction db arbitrary: acc)
  case Nil
  then show ?case by simp
next
  case (Cons ue db)
  show ?case
  proof (cases "fst (get_cell_index E (snd ue) cc) \<and> has_pending_ack E (snd ue) t (snd (get_cell_index E (snd ue) cc))")
    case True
    with Cons.prems have nofull: "\<not> MAX_PHICH_LIST E \<le> length (fst acc)"
      by (auto simp: Let_def split: if_splits)
    let ?v = "if get_pending_ack E (snd ue) t (snd (get_cell_index E (snd ue) cc)) then ACK else NACK"
    from Cons.prems True nofull
    have "generate_phich_loop E cc t db
            (fst acc @ [\<lparr>phich_rnti = fst ue, phich = ?v\<rparr>], snd acc @ [Phich_allocated (fst ue) ?v]) = Inr r"
      by (simp add: Let_def)
    from Cons.IH[OF this] True show ?thesis by simp
  next
    case False
    with Cons.prems have "generate_phich_loop E cc t db acc = Inr r"
      by (auto simp: Let_def split: if_splits)
    from Cons.IH[OF this] False show ?thesis by auto
  qed
qed

lemma generate_phich_result:
  assumes "generate_phich E c s = Inr (c', s')"
  shows "tti_rx s' = tti_rx s \<and> calls s' = calls s \<and>
         ul_phich s' =
           map (\<lambda>ue. \<lparr>phich_rnti = fst ue,
                  phich = (if get_pending_ack E (snd ue) (tti_rx s) (snd (get_cell_index E (snd ue) (enb_cc_idx c)))
                           then ACK else NACK)\<rparr>)
             (filter (\<lambda>ue. fst (get_cell_index E (snd ue) (enb_cc_idx c)) \<and>
                        has_pending_ack E (snd ue) (tti_rx s) (snd (get_cell_index E (snd ue) (enb_cc_idx c))))
                (ue_db c)) \<and>
         carrier_frame c c' \<and> ue_db c' = ue_db c \<and> bc_sched_ptr c' = bc_sched_ptr c \<and>
         ra_sched_ptr c' = ra_sched_ptr c"
  using assms unfolding generate_phich_def get_tti_rx_def
  by (auto simp: carrier_frame_def split: sum.splits dest!: generate_phich_loop_result)


lemma alloc_sib_frame:
  assumes "alloc_sib E cfg i (bc, s) = Inr (bc', s')"
  shows "dl_frame s s'"
  using assms
  unfolding alloc_sib_def Let_def case_prod_beta
  by (auto simp: dl_frame_refl sf_alloc_bc_frame split: if_splits)

lemma bc_dl_sched_frame:
  assumes run: "bc_dl_sched E cfg bc s = Inr (bc', s')"
  shows "dl_frame s s'"
proof -
  from run obtain bc2 st3 where a: "alloc_sibs E cfg (bc2, s) = Inr st3"
    and r: "s' = bc_alloc_paging E (fst st3) (snd st3)"
    unfolding bc_dl_sched_def Let_def by (auto split: sum.splits)
  have "dl_frame s (snd st3)"
  proof (rule for_each_invariant[OF a[unfolded alloc_sibs_def], where P = "\<lambda>st. dl_frame s (snd st)"])
    show "dl_frame s (snd (bc2, s))" by (simp add: dl_frame_refl)
  next
    fix i st st'
    assume "dl_frame s (snd st)" "alloc_sib E cfg i st = Inr st'"
    then show "dl_frame s (snd st')"
      using alloc_sib_frame[of E cfg i "fst st" "snd st" "fst st'" "snd st'"]
      by (auto intro: dl_frame_trans)
  qed
  with bc_alloc_paging_frame[of "snd st3" E "fst st3"] r show ?thesis
    by (auto intro: dl_frame_trans)
qed

lemma ra_dl_sched_body_frame:
  assumes "ra_dl_sched_body E cfg t (ra, s) = Continue (ra', s') \<or>
           ra_dl_sched_body E cfg t (ra, s) = Return (ra', s')"
  shows "dl_frame s s'"
  using assms
  unfolding ra_dl_sched_body_def Let_def case_prod_beta
  by (auto simp: dl_frame_refl sf_alloc_rar_dl_frame split: if_splits)

lemma ra_dl_sched_frame:
  assumes run: "ra_dl_sched E cfg ra s = Some (Inr (ra', s'))"
  shows "dl_frame s s'"
proof -
  define I :: "ra_sched \<times> 'a sf_sched \<Rightarrow> bool" where "I = (\<lambda>st. dl_frame s (snd st))"
  define Q :: "fault + ra_sched \<times> 'a sf_sched \<Rightarrow> bool" where "Q = (\<lambda>y. \<forall>x. y = Inr x \<longrightarrow> I x)"
  have c: "I st'" if "I st" "ra_dl_sched_body E cfg t st = Continue st'" for st st' t
    using ra_dl_sched_body_frame[of E cfg t "fst st" "snd st" "fst st'" "snd st'"] that
    by (auto simp: I_def intro: dl_frame_trans)
  have r: "I st'" if "I st" "ra_dl_sched_body E cfg t st = Return st'" for st st' t
    using ra_dl_sched_body_frame[of E cfg t "fst st" "snd st" "fst st'" "snd st'"] that
    by (auto simp: I_def intro: dl_frame_trans)
  have "Q (Inr (ra', s'))"
  proof (rule ra_dl_sched_loop_rule[where I = I and Q = Q, OF run[unfolded ra_dl_sched_def]])
    show "I (ra, s)" by (simp add: I_def dl_frame_refl)
  qed (auto simp: Q_def intro: c r)
  then show ?thesis by (simp add: Q_def I_def)
qed

lemma sched_dl_ctrl_frame:
  assumes run: "sched_dl_ctrl E c s = Some (Inr (c', s'))"
  shows "dl_frame s s' \<and> carrier_frame c c' \<and> ue_db c' = ue_db c"
proof -
  from run obtain bc ra st1 st2 where
    1: "bc_dl_sched E (cc_cfg c) bc s = Inr st1"
    and 2: "ra_dl_sched E (cc_cfg c) ra (snd st1) = Some (Inr st2)"
    and 3: "c' = c\<lparr>bc_sched_ptr := Some (fst st1), ra_sched_ptr := Some (fst st2)\<rparr>" "s' = snd st2"
    unfolding sched_dl_ctrl_def
    by (auto split: option.splits sum.splits)
  from bc_dl_sched_frame[of E "cc_cfg c" bc s "fst st1" "snd st1"] 1
  have a: "dl_frame s (snd st1)" by simp
  from ra_dl_sched_frame[of E "cc_cfg c" ra "snd st1" "fst st2" "snd st2"] 2
  have b: "dl_frame (snd st1) (snd st2)" by simp
  from a b 3 show ?thesis by (auto simp: carrier_frame_def intro: dl_frame_trans)
qed

lemma sched_user_data_frame:
  assumes run: "sched_user_data E t c s = Inr (c', s')"
  shows "tti_rx s' = tti_rx s \<and> ul_phich s' = ul_phich s \<and>
         filter is_alloc_users (calls s') =
           filter is_alloc_users (calls s) @
           (if t mod 2 = 0 then [Alloc_ul_users, Alloc_dl_users] else [Alloc_dl_users, Alloc_ul_users]) \<and>
         carrier_frame c c'"
proof (cases "t mod 2 = 0")
  case True
  with run obtain c1 s1 where 1: "alloc_ul_users E c s = Inr (c1, s1)"
    and 2: "alloc_dl_users E c1 s1 = Inr (c', s')"
    unfolding sched_user_data_def by (auto split: sum.splits)
  from alloc_ul_users_frame[OF 1] alloc_dl_users_frame[OF 2] True show ?thesis
    by (auto intro: carrier_frame_trans)
next
  case False
  then have odd: "t mod 2 = 1" by presburger
  with run obtain c1 s1 where 1: "alloc_dl_users E c s = Inr (c1, s1)"
    and 2: "alloc_ul_users E c1 s1 = Inr (c', s')"
    unfolding sched_user_data_def by (auto split: sum.splits)
  from alloc_dl_users_frame[OF 1] alloc_ul_users_frame[OF 2] False show ?thesis
    by (auto intro: carrier_frame_trans)
qed

lemma sched_msg3_grants_frame:
  "tti_rx (snd (sched_msg3_grants E cfg gs st)) = tti_rx (snd st) \<and>
   ul_phich (snd (sched_msg3_grants E cfg gs st)) = ul_phich (snd st) \<and>
   calls (snd (sched_msg3_grants E cfg gs st)) = calls (snd st)"
  by (induction gs arbitrary: st) (simp_all add: case_prod_beta sf_alloc_msg3_def)

lemma finish_tti_result_slot:
  assumes run: "finish_tti_result E t dl_active c s = Inr c'" and ne: "sf_scheds c \<noteq> []"
  shows "length (sf_scheds c') = length (sf_scheds c) \<and>
         tti_rx (sf_scheds c' ! get_sf_sched_idx c t) = tti_rx s \<and>
         ul_phich (sf_scheds c' ! get_sf_sched_idx c t) = ul_phich s \<and>
         filter is_alloc_users (calls (sf_scheds c' ! get_sf_sched_idx c t)) = filter is_alloc_users (calls s)"
proof -
  let ?i = "get_sf_sched_idx c t"
  let ?g = "generate_dcis_grid E (ue_db c, grid s)"
  let ?s1 = "s\<lparr>grid := snd ?g, calls := calls s @ [Generate_dcis]\<rparr>"
  let ?c1 = "c\<lparr>ue_db := fst ?g, sf_scheds := (sf_scheds c)[?i := ?s1]\<rparr>"
  have i: "?i < length (sf_scheds c)" using ne by (simp add: get_sf_sched_idx_def)
  show ?thesis
  proof (cases dl_active)
    case False
    with run have "sf_scheds c' = (sf_scheds c)[?i := ?s1]"
      unfolding finish_tti_result_def case_prod_beta Let_def by auto
    with i show ?thesis by simp
  next
    case True
    let ?j = "get_sf_sched_idx ?c1 (u32_add t (MSG3_DELAY_MS E))"
    from run True obtain ra where ra: "ra_sched_ptr ?c1 = Some ra"
      unfolding finish_tti_result_def case_prod_beta Let_def
      by (cases "ra_sched_ptr ?c1") (auto split: sum.splits)
    let ?sm = "snd (sched_msg3 E (cc_cfg ?c1) ra (sf_scheds ?c1 ! ?j) (dl_sched_result_rar E (grid ?s1)))"
    from run True ra have ring: "sf_scheds c' = (sf_scheds ?c1)[?j := ?sm]"
      unfolding finish_tti_result_def case_prod_beta Let_def by auto
    have j: "?j < length (sf_scheds c)" using ne by (simp add: get_sf_sched_idx_def)
    have sm: "tti_rx ?sm = tti_rx (sf_scheds ?c1 ! ?j)" "ul_phich ?sm = ul_phich (sf_scheds ?c1 ! ?j)"
      "calls ?sm = calls (sf_scheds ?c1 ! ?j)"
      unfolding sched_msg3_def using sched_msg3_grants_frame by (metis snd_conv)+
    show ?thesis
    proof (cases "?j = ?i")
      case same: True
      with ring i have "sf_scheds c' ! ?i = ?sm" by simp
      moreover have "sf_scheds ?c1 ! ?j = ?s1" using same i by simp
      ultimately show ?thesis using sm ring by simp
    next
      case diff: False
      with ring i have "sf_scheds c' ! ?i = ?s1" by simp
      then show ?thesis using ring by simp
    qed
  qed
qed

subsection \<open>The result of a TTI\<close>


lemma generate_tti_result_memo:
  assumes "sf_scheds c \<noteq> []" and "get_tti_rx (sf_scheds c ! get_sf_sched_idx c t) = t"
  shows "generate_tti_result E t c = Some (Inr (get_sf_sched_idx c t, c))"
  using assms by (simp add: generate_tti_result_def Let_def)

lemma generate_tti_result_first:
  assumes run: "generate_tti_result E t c = Some (Inr (i, c'))"
    and first: "t \<noteq> get_tti_rx (sf_scheds c ! get_sf_sched_idx c t)"
  shows "i = get_sf_sched_idx c t \<and> sf_scheds c \<noteq> [] \<and> length (sf_scheds c') = length (sf_scheds c) \<and>
         tti_rx (sf_scheds c' ! i) = t \<and>
         ul_phich (sf_scheds c' ! i) =
           map (\<lambda>ue. \<lparr>phich_rnti = fst ue,
                  phich = (if get_pending_ack E (snd ue) t (snd (get_cell_index E (snd ue) (enb_cc_idx c)))
                           then ACK else NACK)\<rparr>)
             (filter (\<lambda>ue. fst (get_cell_index E (snd ue) (enb_cc_idx c)) \<and>
                        has_pending_ack E (snd ue) t (snd (get_cell_index E (snd ue) (enb_cc_idx c))))
                (ue_db c)) \<and>
         filter is_alloc_users (calls (sf_scheds c' ! i)) =
           (if t mod 2 = 0 then [Alloc_ul_users, Alloc_dl_users] else [Alloc_dl_users, Alloc_ul_users])"
proof -
  let ?idx = "get_sf_sched_idx c t"
  let ?s0 = "sf_scheds c ! ?idx"
  let ?s1 = "new_tti E t (nof_ctrl_symbols c) ?s0"
  let ?act = "sf_dl_mask c ! (get_tti_tx_dl E ?s0 mod length (sf_dl_mask c)) = 0"
  from run have ne: "sf_scheds c \<noteq> []"
    unfolding generate_tti_result_def by (auto split: if_splits)
  from run first ne obtain st2 st3 st4 c5 where
    ph: "generate_phich E c ?s1 = Inr st2"
    and ctl: "(if ?act then sched_dl_ctrl E (fst st2) (snd st2) else Some (Inr st2)) = Some (Inr st3)"
    and dat: "sched_user_data E t (fst st3) (snd st3) = Inr st4"
    and fin: "finish_tti_result E t ?act (fst st4) (snd st4) = Inr c5"
    and res: "i = ?idx" "c' = c5"
    unfolding generate_tti_result_def Let_def
    by (auto split: if_splits sum.splits option.splits)
  have s1: "tti_rx ?s1 = t" "calls ?s1 = []" by (simp_all add: new_tti_def)
  note P = generate_phich_result[of E c ?s1 "fst st2" "snd st2", simplified, OF ph, unfolded s1]
  have C: "dl_frame (snd st2) (snd st3) \<and> carrier_frame (fst st2) (fst st3)"
  proof (cases ?act)
    case True
    with ctl sched_dl_ctrl_frame[of E "fst st2" "snd st2" "fst st3" "snd st3"] show ?thesis by simp
  next
    case False
    with ctl show ?thesis by (simp add: dl_frame_refl carrier_frame_refl)
  qed
  note D = sched_user_data_frame[of E t "fst st3" "snd st3" "fst st4" "snd st4", simplified, OF dat]
  from P C D have ring: "sf_scheds (fst st4) = sf_scheds c"
    by (simp add: carrier_frame_def)
  then have idx4: "get_sf_sched_idx (fst st4) t = ?idx" by (simp add: get_sf_sched_idx_def)
  from ring ne have ne4: "sf_scheds (fst st4) \<noteq> []" by simp
  note F = finish_tti_result_slot[OF fin ne4, unfolded idx4 ring]
  from P C D F res show ?thesis
    by (simp add: dl_frame_def ne)
qed

text \<open>
  Claim C7. When \<^verbatim>\<open>generate_tti_result(tti_rx)\<close> returns a slot, a second call with the same
  \<^verbatim>\<open>tti_rx\<close> returns the same slot of the ring and leaves the whole carrier scheduler (UE
  database, pending RARs, SIB windows, the slots) as the first call left it.
\<close>

theorem generate_tti_result_idempotent:
  assumes "generate_tti_result E t c = Some (Inr (i, c'))"
  shows "generate_tti_result E t c' = Some (Inr (i, c'))"
proof (cases "t = get_tti_rx (sf_scheds c ! get_sf_sched_idx c t)")
  case True
  with assms show ?thesis
    unfolding generate_tti_result_def Let_def by (auto split: if_splits)
next
  case False
  note M = generate_tti_result_first[OF assms False]
  from M have i: "i = get_sf_sched_idx c t" and len: "length (sf_scheds c') = length (sf_scheds c)"
    and ne0: "sf_scheds c \<noteq> []" and tti: "tti_rx (sf_scheds c' ! i) = t"
    by blast+
  from i len have idx: "get_sf_sched_idx c' t = i" by (simp add: get_sf_sched_idx_def)
  from len ne0 have ne: "sf_scheds c' \<noteq> []" by auto
  from tti idx have "get_tti_rx (sf_scheds c' ! get_sf_sched_idx c' t) = t" by (simp add: get_tti_rx_def)
  from generate_tti_result_memo[OF ne this, of E] idx show ?thesis by simp
qed



subsection \<open>The results on an example carrier\<close>



lemmas example_defs =
  generate_tti_result_def carrier_example_def carrier_blackout_def carrier_cfg_def get_sf_sched_idx_def
  get_tti_rx_def fresh_slot_def env_dci_def stub_env_def generate_phich_def new_tti_def
  sched_dl_ctrl_def bc_dl_sched_def update_si_windows_def alloc_sibs_def update_si_window_def
  alloc_sib_def bc_alloc_paging_def bc_sched_new_def zero_sib_def get_sfn_def get_sf_idx_def
  get_tti_tx_dl_def cfg_25prb_def Let_def ra_dl_sched_def ra_dl_sched_loop.simps
  sched_user_data_def alloc_ul_users_def alloc_dl_users_def ul_reserve_prach_def
  ra_ul_sched_def finish_tti_result_def sched_msg3_def get_tti_tx_ul_def mask_fill_def u32_sub_def u32_add_def

lemma example_run_even: "\<exists>x. generate_tti_result env_dci 4 carrier_example = Some (Inr x)"
  by (simp add: example_defs)



theorem generate_tti_result_idempotent_witness:
  "generate_tti_result env_dci 4 carrier_example \<noteq> None \<and>
   isl (the (generate_tti_result env_dci 4 carrier_example)) = False \<and>
   generate_tti_result env_dci 4 (snd (projr (the (generate_tti_result env_dci 4 carrier_example)))) =
     generate_tti_result env_dci 4 carrier_example"
proof -
  from example_run_even obtain x where x: "generate_tti_result env_dci 4 carrier_example = Some (Inr x)" ..
  then have "generate_tti_result env_dci 4 carrier_example = Some (Inr (fst x, snd x))" by simp
  from generate_tti_result_idempotent[OF this] x show ?thesis by simp
qed




lemma alloc_ul_users_returns:
  assumes "ra_sched_ptr c = Some ra"
  shows "isl (alloc_ul_users E c s) = False"
  using assms by (simp add: alloc_ul_users_def ul_reserve_prach_def case_prod_beta Let_def)

theorem ul_mask_reserved_witness:
  "isl (alloc_ul_users env_dci carrier_example slot_with_msg3) = False \<and>
   srslte_prach_tti_opportunity_config_fdd env_dci (prach_config (cc_cfg carrier_example))
     (get_tti_tx_ul env_dci slot_with_msg3) (- 1) \<and>
   6 < nof_prb (cc_cfg carrier_example) \<and>
   pucch_mask carrier_example = {0, 1, 23, 24} \<and> prach_mask carrier_example = {2, 3, 4, 5, 6, 7} \<and>
   0 \<in> ul_mask (snd (ul_before_pucch env_dci carrier_example \<lparr>pending_rars = [], ra_log = []\<rparr> slot_with_msg3)) \<and>
   {0, 1, 23, 24} \<subseteq> ul_mask (snd (projr (alloc_ul_users env_dci carrier_example slot_with_msg3))) \<and>
   {2, 3, 4, 5, 6, 7} \<subseteq> ul_mask (snd (projr (alloc_ul_users env_dci carrier_example slot_with_msg3))) \<and>
   log_h (fst (projr (alloc_ul_users env_dci carrier_example slot_with_msg3))) =
     [Prach_rbs_allocated, Pucch_collision]"
proof -
  have ma: "\<forall>rnti u al ty mcs m g. m \<subseteq> fst (snd (alloc_ul env_dci rnti u al ty mcs (m, g)))"
    by (simp add: env_dci_def stub_env_def)
  have mm: "\<forall>db m g. m \<subseteq> fst (snd (ul_metric_sched_users env_dci db (m, g)))"
    by (simp add: env_dci_def stub_env_def)
  have pm: "pucch_mask carrier_example = {0, 1, 23, 24}" "prach_mask carrier_example = {2, 3, 4, 5, 6, 7}"
    by (auto simp: carrier_example_def carrier_cfg_def cfg_25prb_def mask_fill_def u32_sub_def)
  have cf: "cc_cfg carrier_example = cfg_25prb" "ra_sched_ptr carrier_example = Some \<lparr>pending_rars = [], ra_log = []\<rparr>"
    "log_h carrier_example = []" "ue_db carrier_example = [(70, True), (71, False)]"
    by (simp_all add: carrier_example_def carrier_cfg_def)
  have opp: "srslte_prach_tti_opportunity_config_fdd env_dci (prach_config (cc_cfg carrier_example))
     (get_tti_tx_ul env_dci slot_with_msg3) (- 1)"
    by (simp add: env_dci_def stub_env_def get_tti_tx_ul_def slot_with_msg3_def fresh_slot_def)
  have big: "6 < nof_prb (cc_cfg carrier_example)" by (simp add: cf cfg_25prb_def)
  have ok: "isl (alloc_ul_users env_dci carrier_example slot_with_msg3) = False"
    by (rule alloc_ul_users_returns[OF cf(2)])
  then obtain c' s' where run: "alloc_ul_users env_dci carrier_example slot_with_msg3 = Inr (c', s')"
    by (cases "alloc_ul_users env_dci carrier_example slot_with_msg3") auto
  have zero: "0 \<in> ul_mask (snd (ul_before_pucch env_dci carrier_example \<lparr>pending_rars = [], ra_log = []\<rparr> slot_with_msg3))"
    by (simp add: ul_before_pucch_def ul_reserve_prach_def case_prod_beta cf ra_ul_sched_def
          slot_with_msg3_def fresh_slot_def sf_alloc_ul_def env_dci_def stub_env_def get_tti_tx_ul_def)
  with pm have col: "ul_mask (snd (ul_before_pucch env_dci carrier_example \<lparr>pending_rars = [], ra_log = []\<rparr> slot_with_msg3))
      \<inter> pucch_mask carrier_example \<noteq> {}"
    by auto
  note T = ul_mask_reserved[OF ma mm run]
  from T opp have a: "pucch_mask carrier_example \<subseteq> ul_mask s'" "prach_mask carrier_example \<subseteq> ul_mask s'"
    by blast+
  from T cf(2) big col
  have "log_h c' = log_h carrier_example @
                 (if srslte_prach_tti_opportunity_config_fdd env_dci (prach_config (cc_cfg carrier_example))
                       (get_tti_tx_ul env_dci slot_with_msg3) (- 1)
                  then [Prach_rbs_allocated] else []) @ [Pucch_collision]"
    by blast
  with opp cf have l: "log_h c' = [Prach_rbs_allocated, Pucch_collision]" by simp
  from ok opp big pm zero a l run show ?thesis by simp
qed

end
